theory Spec2Isabelle
  imports Complex_Main "HOL-Library.Sublist" "HOL-Library.AList"
begin

section \<open>JavaScript values used by the engine\<close>

text \<open>
  A JavaScript number is a double. The model keeps the special values that decide
  comparisons (\<open>NaN\<close> and the two infinities) and computes with exact reals on the
  finite ones; rounding and the sign of zero are not modelled.
\<close>

datatype jsnum = NaN | PInf | NInf | Num real

fun js_neg :: "jsnum \<Rightarrow> jsnum" where
  "js_neg NaN = NaN"
| "js_neg PInf = NInf"
| "js_neg NInf = PInf"
| "js_neg (Num a) = Num (- a)"

fun js_add :: "jsnum \<Rightarrow> jsnum \<Rightarrow> jsnum" where
  "js_add (Num a) (Num b) = Num (a + b)"
| "js_add NaN _ = NaN"
| "js_add _ NaN = NaN"
| "js_add PInf NInf = NaN"
| "js_add NInf PInf = NaN"
| "js_add PInf _ = PInf"
| "js_add _ PInf = PInf"
| "js_add NInf _ = NInf"
| "js_add _ NInf = NInf"

definition js_sub :: "jsnum \<Rightarrow> jsnum \<Rightarrow> jsnum" where
  "js_sub x y = js_add x (js_neg y)"

fun js_mul :: "jsnum \<Rightarrow> jsnum \<Rightarrow> jsnum" where
  "js_mul (Num a) (Num b) = Num (a * b)"
| "js_mul NaN _ = NaN"
| "js_mul _ NaN = NaN"
| "js_mul PInf (Num b) = (if b = 0 then NaN else if 0 < b then PInf else NInf)"
| "js_mul NInf (Num b) = (if b = 0 then NaN else if 0 < b then NInf else PInf)"
| "js_mul (Num a) PInf = (if a = 0 then NaN else if 0 < a then PInf else NInf)"
| "js_mul (Num a) NInf = (if a = 0 then NaN else if 0 < a then NInf else PInf)"
| "js_mul PInf PInf = PInf"
| "js_mul NInf NInf = PInf"
| "js_mul PInf NInf = NInf"
| "js_mul NInf PInf = NInf"

fun js_div :: "jsnum \<Rightarrow> jsnum \<Rightarrow> jsnum" where
  "js_div (Num a) (Num b) =
     (if b \<noteq> 0 then Num (a / b)
      else if a = 0 then NaN else if 0 < a then PInf else NInf)"
| "js_div NaN _ = NaN"
| "js_div _ NaN = NaN"
| "js_div (Num a) _ = Num 0"
| "js_div PInf (Num b) = (if 0 \<le> b then PInf else NInf)"
| "js_div NInf (Num b) = (if 0 \<le> b then NInf else PInf)"
| "js_div _ _ = NaN"

fun js_abs :: "jsnum \<Rightarrow> jsnum" where
  "js_abs NaN = NaN"
| "js_abs PInf = PInf"
| "js_abs NInf = PInf"
| "js_abs (Num a) = Num \<bar>a\<bar>"

text \<open>\<open>Math.max(x, y)\<close>: \<open>NaN\<close> as soon as one argument is \<open>NaN\<close>.\<close>

fun js_max :: "jsnum \<Rightarrow> jsnum \<Rightarrow> jsnum" where
  "js_max (Num a) (Num b) = Num (max a b)"
| "js_max NaN _ = NaN"
| "js_max _ NaN = NaN"
| "js_max PInf _ = PInf"
| "js_max _ PInf = PInf"
| "js_max NInf y = y"
| "js_max x NInf = x"

text \<open>\<open>x > r\<close> for a finite literal \<open>r\<close>: every comparison with \<open>NaN\<close> is false.\<close>

fun js_gt :: "jsnum \<Rightarrow> real \<Rightarrow> bool" where
  "js_gt (Num a) r = (r < a)"
| "js_gt PInf r = True"
| "js_gt NInf r = False"
| "js_gt NaN r = False"

text \<open>
  A text field of an object fetched from the issue tracker: missing (\<open>undefined\<close>),
  \<open>null\<close>, or a string.
\<close>

datatype jstext = Undefined | Null | Str string

text \<open>Truthiness: \<open>undefined\<close>, \<open>null\<close> and the empty string are falsy.\<close>

fun truthy :: "jstext \<Rightarrow> bool" where
  "truthy (Str s) = (s \<noteq> [])"
| "truthy _ = False"

text \<open>An optional string-valued property; \<open>None\<close> is \<open>undefined\<close>.\<close>

definition truthy_opt :: "string option \<Rightarrow> bool" where
  "truthy_opt v = (case v of None \<Rightarrow> False | Some s \<Rightarrow> s \<noteq> [])"

text \<open>
  \<open>Array.prototype.sort(compareFn)\<close>. The sort is stable, and a comparator result that
  is \<open>NaN\<close> counts as \<open>0\<close>. For a consistent comparator every stable sort yields the same
  array; the model is the stable insertion sort.
\<close>

fun js_le0 :: "jsnum \<Rightarrow> bool" where
  "js_le0 (Num v) = (v \<le> 0)"
| "js_le0 NaN = True"
| "js_le0 NInf = True"
| "js_le0 PInf = False"

fun insert_cmp :: "('a \<Rightarrow> 'a \<Rightarrow> jsnum) \<Rightarrow> 'a \<Rightarrow> 'a list \<Rightarrow> 'a list" where
  "insert_cmp cmp x [] = [x]"
| "insert_cmp cmp x (y # ys) =
     (if js_le0 (cmp x y) then x # y # ys else y # insert_cmp cmp x ys)"

definition array_sort :: "('a \<Rightarrow> 'a \<Rightarrow> jsnum) \<Rightarrow> 'a list \<Rightarrow> 'a list" where
  "array_sort cmp xs = foldr (insert_cmp cmp) xs []"


section \<open>Knowledge store and pattern matching (hive-mind-engine.js)\<close>

text \<open>
  The signature of a stored pattern, as \<open>createSignature\<close> builds it. A property that
  is not set reads as \<open>undefined\<close> (\<open>None\<close>).
\<close>

record signature =
  s_domain :: "string option"
  s_complexity :: "string option"
  s_keyTerms :: "string list option"
  s_category :: "string option"

record pattern =
  p_type :: string
  p_signature :: signature
  p_approach :: "string option"
  p_successRate :: real
  p_confidence :: real

text \<open>\<open>state.patterns\<close> is a \<open>Map\<close>: it is iterated in insertion order.\<close>

type_synonym pattern_store = "(string \<times> pattern) list"

record label =
  l_name :: jstext

text \<open>
  The issue object handed to the engine. \<open>title\<close>, \<open>body\<close> and \<open>labels\<close> come from the
  issue tracker; \<open>domain\<close>, \<open>complexity\<close>, \<open>keyTerms\<close> and \<open>category\<close> are the
  properties that \<open>calculateSimilarity\<close> reads from it.
\<close>

record issue =
  i_number :: int
  i_title :: jstext
  i_body :: jstext
  i_labels :: "label list option"
  i_domain :: "string option"
  i_complexity :: "string option"
  i_keyTerms :: "string list option"
  i_category :: "string option"

text \<open>
  \<open>complexityMap[key]\<close> followed by the use of the value in a subtraction: a key that is
  absent from the table, or an \<open>undefined\<close> key, yields \<open>undefined\<close>, which the
  subtraction converts to \<open>NaN\<close>.
\<close>

definition complexityMap :: "string option \<Rightarrow> jsnum" where
  "complexityMap key =
     (if key = Some ''low'' then Num 1
      else if key = Some ''medium'' then Num 2
      else if key = Some ''high'' then Num 3
      else if key = Some ''very-high'' then Num 4
      else NaN)"

definition calculateSimilarity :: "issue \<Rightarrow> signature \<Rightarrow> jsnum" where
  "calculateSimilarity issue1 sg =
     (let similarity = Num 0;
          factors = (0::nat);
          \<comment> \<open>Domain similarity\<close>
          similarity =
            (if i_domain issue1 = s_domain sg then js_add similarity (Num 0.3)
             else if truthy_opt (i_domain issue1) \<and> truthy_opt (s_domain sg)
               then js_add similarity (Num 0.1)
             else similarity);
          factors = factors + 1;
          \<comment> \<open>Complexity similarity\<close>
          diff = js_abs (js_sub (complexityMap (i_complexity issue1))
                                (complexityMap (s_complexity sg)));
          similarity =
            js_add similarity
              (js_mul (js_max (Num 0) (js_sub (Num 1) (js_div diff (Num 3)))) (Num 0.2));
          factors = factors + 1;
          \<comment> \<open>Key terms overlap\<close>
          similarity =
            (case (i_keyTerms issue1, s_keyTerms sg) of
               (Some ts, Some us) \<Rightarrow>
                 (let overlap = length (filter (\<lambda>term. term \<in> set us) ts)
                  in js_add similarity
                       (js_mul (js_div (Num (real overlap))
                                       (Num (real (max (length ts) (length us)))))
                               (Num 0.3)))
             | _ \<Rightarrow> similarity);
          factors = factors + 1;
          \<comment> \<open>Category match\<close>
          similarity =
            (if i_category issue1 = s_category sg then js_add similarity (Num 0.2)
             else similarity);
          factors = factors + 1
      in js_div similarity (Num (real factors)))"

text \<open>\<open>x >= y\<close> on numbers: false as soon as one side is \<open>NaN\<close>.\<close>

fun js_geq :: "jsnum \<Rightarrow> jsnum \<Rightarrow> bool" where
  "js_geq (Num a) (Num b) = (b \<le> a)"
| "js_geq NaN _ = False"
| "js_geq _ NaN = False"
| "js_geq PInf _ = True"
| "js_geq _ NInf = True"
| "js_geq _ _ = False"

text \<open>One entry of the list that \<open>matchPatterns\<close> returns.\<close>

record pattern_match =
  m_id :: string
  m_similarity :: jsnum
  m_pattern :: pattern
  m_confidence :: jsnum

text \<open>
  The loop of \<open>matchPatterns\<close> over the store. The method calls
  \<open>this.calculateSimilarity\<close>; the scorer is an argument here, and \<open>matchPatterns\<close>
  below is the instance with the scorer of the class.
\<close>

fun collectMatches ::
  "(issue \<Rightarrow> signature \<Rightarrow> jsnum) \<Rightarrow> issue \<Rightarrow> pattern_store \<Rightarrow> pattern_match list" where
  "collectMatches sim iss [] = []"
| "collectMatches sim iss ((patternId, pat) # rest) =
     (let similarity = sim iss (p_signature pat)
      in if js_gt similarity 0.7
         then \<lparr>m_id = patternId, m_similarity = similarity, m_pattern = pat,
               m_confidence = js_mul similarity (Num (p_successRate pat))\<rparr>
              # collectMatches sim iss rest
         else collectMatches sim iss rest)"

definition matchPatternsWith ::
  "(issue \<Rightarrow> signature \<Rightarrow> jsnum) \<Rightarrow> pattern_store \<Rightarrow> issue \<Rightarrow> pattern_match list" where
  "matchPatternsWith sim store iss =
     array_sort (\<lambda>a b. js_sub (m_confidence b) (m_confidence a))
       (collectMatches sim iss store)"

definition matchPatterns :: "pattern_store \<Rightarrow> issue \<Rightarrow> pattern_match list" where
  "matchPatterns store iss = matchPatternsWith calculateSimilarity store iss"


section \<open>Runtime primitives and failing property reads\<close>

text \<open>
  The regular-expression literals of the engine. Matching is done by the JavaScript
  runtime, not by code of the repository, so the model takes the runtime's string
  primitives as a parameter and every result holds for each behaviour of them.
  \<^item> \<open>RxNonAlnum\<close>: every character that is not a lower-case letter, a digit or white space
  \<^item> \<open>RxSpaces\<close>: a run of white space
  \<^item> \<open>RxSentenceEnd\<close>: a run of full stops, exclamation marks and question marks
  \<^item> \<open>RxUrl\<close>: \<open>http://\<close> or \<open>https://\<close> followed by non-space characters
  \<^item> \<open>RxFile\<close>: a name, a dot and an extension of two to four letters
  \<^item> \<open>RxIssueRef\<close>: \<open>#\<close> followed by digits
  \<^item> \<open>RxCodeBlock\<close>: a fenced code block
  \<^item> \<open>RxInlineCode\<close>: a span between two backticks
  \<^item> \<open>RxStackTrace\<close>: \<open>at\<close>, white space, text and a parenthesised location
  \<^item> \<open>RxTechnical k\<close>: the \<open>k\<close>-th entry of \<open>technicalPatterns\<close>
\<close>

datatype regex =
    RxNonAlnum | RxSpaces | RxSentenceEnd | RxUrl | RxFile | RxIssueRef
  | RxCodeBlock | RxInlineCode | RxStackTrace | RxTechnical nat

text \<open>
  \<open>re_match\<close> is \<open>String.prototype.match\<close> with a global expression: \<open>null\<close> (\<open>None\<close>)
  when nothing matches, the array of matches otherwise.
\<close>

record runtime =
  toLowerCase :: "string \<Rightarrow> string"
  re_match :: "regex \<Rightarrow> string \<Rightarrow> string list option"
  re_replace :: "regex \<Rightarrow> string \<Rightarrow> string \<Rightarrow> string"
  re_split :: "regex \<Rightarrow> string \<Rightarrow> string list"

text \<open>
  Thrown values: a \<open>TypeError\<close> of the runtime, an \<open>Error\<close> with its message, the error
  of a failed request to the issue tracker with its HTTP status, and the error that
  \<open>fetchCompleteIssueData\<close> builds from the issue number and the message of its cause.
\<close>

datatype error =
    TypeError
  | Error string
  | RequestError nat string
  | UnableToFetch int string

definition bindE :: "error + 'a \<Rightarrow> ('a \<Rightarrow> error + 'b) \<Rightarrow> error + 'b" where
  "bindE m f = (case m of Inl e \<Rightarrow> Inl e | Inr x \<Rightarrow> f x)"

text \<open>
  \<open>text.match(re)\<close> on a value that may be missing: reading a property of \<open>undefined\<close>
  or \<open>null\<close> throws a \<open>TypeError\<close>.
\<close>

fun str_match :: "runtime \<Rightarrow> regex \<Rightarrow> jstext \<Rightarrow> error + string list option" where
  "str_match rt re (Str s) = Inr (re_match rt re s)"
| "str_match rt re _ = Inl TypeError"

text \<open>\<open>matches || []\<close>\<close>

fun or_empty :: "'a list option \<Rightarrow> 'a list" where
  "or_empty None = []"
| "or_empty (Some xs) = xs"

text \<open>Conversion to a string in a template literal or a concatenation.\<close>

fun js_string :: "jstext \<Rightarrow> string" where
  "js_string Undefined = ''undefined''"
| "js_string Null = ''null''"
| "js_string (Str s) = s"

text \<open>\<open>String.prototype.includes\<close>: the argument occurs as a contiguous substring.\<close>

definition str_includes :: "string \<Rightarrow> string \<Rightarrow> bool" where
  "str_includes text kw = sublist kw text"

text \<open>\<open>Math.round\<close> and \<open>Math.ceil\<close> on a finite number.\<close>

definition js_round :: "real \<Rightarrow> int" where
  "js_round x = \<lfloor>x + 1 / 2\<rfloor>"

definition js_ceil :: "real \<Rightarrow> int" where
  "js_ceil x = \<lceil>x\<rceil>"


section \<open>Semantic analysis (hive-mind-engine.js)\<close>

text \<open>
  \<open>extractKeyTerms\<close> counts the terms in a plain object. The value of a property is a
  number, except for the term \<open>constructor\<close>: the first read finds the inherited
  \<open>Object.prototype.constructor\<close>, a function, and \<open>+ 1\<close> concatenates. \<open>Text n\<close> is
  the source text of that function followed by \<open>n\<close> digits \<open>1\<close>. The terms are made of
  lower-case letters and digits (the replacement and the split see to that), and
  \<open>constructor\<close> is the only such name that \<open>Object.prototype\<close> defines.
\<close>

datatype tally = Count nat | Text nat

text \<open>The own properties of the object, in insertion order.\<close>

type_synonym term_object = "(string \<times> tally) list"

definition tally_step :: "term_object \<Rightarrow> string \<Rightarrow> term_object" where
  "tally_step acc term =
     (case map_of acc term of
        Some (Count n) \<Rightarrow> AList.update term (Count (n + 1)) acc
      | Some (Text n) \<Rightarrow> AList.update term (Text (n + 1)) acc
      | None \<Rightarrow>
          (if term = ''constructor'' then acc @ [(term, Text 1)]
           else acc @ [(term, Count 1)]))"

text \<open>
  \<open>Object.entries\<close>: keys that are array indices (canonical decimal numbers below
  \<open>2^32 - 1\<close>) come first in ascending numeric order, the other keys follow in insertion
  order.
\<close>

definition is_digit :: "char \<Rightarrow> bool" where
  "is_digit c = (48 \<le> (of_char c :: nat) \<and> (of_char c :: nat) \<le> 57)"

definition digits_value :: "string \<Rightarrow> nat" where
  "digits_value s = foldl (\<lambda>n c. 10 * n + ((of_char c :: nat) - 48)) 0 s"

definition is_index :: "string \<Rightarrow> bool" where
  "is_index s =
     (s \<noteq> [] \<and> list_all is_digit s \<and> (s = ''0'' \<or> hd s \<noteq> CHR ''0'')
      \<and> digits_value s < 2 ^ 32 - 1)"

definition object_entries :: "(string \<times> 'v) list \<Rightarrow> (string \<times> 'v) list" where
  "object_entries obj =
     sort_key (\<lambda>kv. digits_value (fst kv)) (filter (\<lambda>kv. is_index (fst kv)) obj)
     @ filter (\<lambda>kv. \<not> is_index (fst kv)) obj"

fun tally_num :: "tally \<Rightarrow> jsnum" where
  "tally_num (Count n) = Num (real n)"
| "tally_num (Text n) = NaN"

record key_term =
  kt_term :: string
  kt_count :: tally

definition extractKeyTerms :: "runtime \<Rightarrow> string \<Rightarrow> key_term list" where
  "extractKeyTerms rt text =
     (let terms =
            foldl tally_step []
              (filter (\<lambda>term. length term > 2)
                 (re_split rt RxSpaces
                    (re_replace rt RxNonAlnum (toLowerCase rt text) '' '')))
      in map (\<lambda>(term, count). \<lparr>kt_term = term, kt_count = count\<rparr>)
           (take 20
              (array_sort (\<lambda>(_, a) (_, b). js_sub (tally_num b) (tally_num a))
                 (object_entries terms))))"

definition analyzeSentiment :: "runtime \<Rightarrow> string \<Rightarrow> string" where
  "analyzeSentiment rt text =
     (let positiveWords = [''good'', ''great'', ''excellent'', ''perfect'', ''amazing'', ''awesome''];
          negativeWords = [''bad'', ''terrible'', ''awful'', ''horrible'', ''broken'', ''failed'', ''error''];
          words = re_split rt RxSpaces (toLowerCase rt text);
          positive = length (filter (\<lambda>word. word \<in> set positiveWords) words);
          negative = length (filter (\<lambda>word. word \<in> set negativeWords) words)
      in if positive > negative then ''positive''
         else if negative > positive then ''negative''
         else ''neutral'')"

record entity =
  en_type :: string
  en_value :: string

definition extractEntities :: "runtime \<Rightarrow> string \<Rightarrow> entity list" where
  "extractEntities rt text =
     (let urls = or_empty (re_match rt RxUrl text);
          files = or_empty (re_match rt RxFile text);
          issues = or_empty (re_match rt RxIssueRef text)
      in map (\<lambda>url. \<lparr>en_type = ''url'', en_value = url\<rparr>) urls
         @ map (\<lambda>file. \<lparr>en_type = ''file'', en_value = file\<rparr>) files
         @ map (\<lambda>iss. \<lparr>en_type = ''issue'', en_value = iss\<rparr>) issues)"

definition classifyIntent :: "runtime \<Rightarrow> string \<Rightarrow> string" where
  "classifyIntent rt text =
     (let text_lower = toLowerCase rt text
      in if str_includes text_lower ''how to'' \<or> str_includes text_lower ''how can'' then ''question''
         else if str_includes text_lower ''add'' \<or> str_includes text_lower ''implement''
                 \<or> str_includes text_lower ''feature'' then ''feature-request''
         else if str_includes text_lower ''error'' \<or> str_includes text_lower ''bug''
                 \<or> str_includes text_lower ''broken'' then ''bug-report''
         else if str_includes text_lower ''improve'' \<or> str_includes text_lower ''optimize''
                 \<or> str_includes text_lower ''enhance'' then ''enhancement''
         else if str_includes text_lower ''document'' \<or> str_includes text_lower ''readme''
                 \<or> str_includes text_lower ''guide'' then ''documentation''
         else ''general'')"

definition measureTextComplexity :: "runtime \<Rightarrow> string \<Rightarrow> string" where
  "measureTextComplexity rt text =
     (let sentences = length (re_split rt RxSentenceEnd text);
          words = length (re_split rt RxSpaces text);
          avgWordsPerSentence = real words / real (max sentences 1)
      in if avgWordsPerSentence > 20 then ''high''
         else if avgWordsPerSentence > 15 then ''medium''
         else ''low'')"

record semantic =
  sem_keyTerms :: "key_term list"
  sem_sentiment :: string
  sem_entities :: "entity list"
  sem_intent :: string
  sem_complexity :: string

text \<open>The text that the analyses read: the template \<open>title body\<close>.\<close>

definition issue_text :: "issue \<Rightarrow> string" where
  "issue_text iss = js_string (i_title iss) @ '' '' @ js_string (i_body iss)"

definition analyzeSemantics :: "runtime \<Rightarrow> issue \<Rightarrow> semantic" where
  "analyzeSemantics rt iss =
     (let text = issue_text iss
      in \<lparr>sem_keyTerms = extractKeyTerms rt text,
          sem_sentiment = analyzeSentiment rt text,
          sem_entities = extractEntities rt text,
          sem_intent = classifyIntent rt text,
          sem_complexity = measureTextComplexity rt text\<rparr>)"


section \<open>Complexity, domain, priority, solution space and risks\<close>

definition countTechnicalTerms :: "runtime \<Rightarrow> string \<Rightarrow> nat" where
  "countTechnicalTerms rt text =
     foldl (\<lambda>count pat.
              count + (case re_match rt pat text of Some matches \<Rightarrow> length matches | None \<Rightarrow> 0))
       0 [RxTechnical 0, RxTechnical 1, RxTechnical 2, RxTechnical 3]"

definition extractCodeSnippets :: "runtime \<Rightarrow> jstext \<Rightarrow> error + string list" where
  "extractCodeSnippets rt text =
     (if \<not> truthy text then Inr []
      else bindE (str_match rt RxCodeBlock text) (\<lambda>m1.
           bindE (str_match rt RxInlineCode text) (\<lambda>m2.
           let codeBlocks = or_empty m1; inlineCode = or_empty m2
           in Inr (codeBlocks @ inlineCode))))"

definition extractStackTraces :: "runtime \<Rightarrow> jstext \<Rightarrow> error + string list" where
  "extractStackTraces rt text =
     (if \<not> truthy text then Inr []
      else bindE (str_match rt RxStackTrace text) (\<lambda>m. Inr (or_empty m)))"

definition extractReferences :: "runtime \<Rightarrow> jstext \<Rightarrow> error + string list" where
  "extractReferences rt text =
     (if \<not> truthy text then Inr []
      else bindE (str_match rt RxUrl text) (\<lambda>m1.
           bindE (str_match rt RxIssueRef text) (\<lambda>m2.
           bindE (str_match rt RxFile text) (\<lambda>m3.
           let urls = or_empty m1; issues = or_empty m2; files = or_empty m3
           in Inr (urls @ issues @ files)))))"

text \<open>The \<open>factors\<close> object; \<open>Object.entries\<close> lists its properties in this order.\<close>

record factors =
  f_textLength :: nat
  f_technicalTerms :: nat
  f_codeSnippets :: nat
  f_stackTraces :: nat
  f_labels :: nat
  f_references :: nat

definition factor_entries :: "factors \<Rightarrow> (string \<times> nat) list" where
  "factor_entries fs =
     [(''textLength'', f_textLength fs), (''technicalTerms'', f_technicalTerms fs),
      (''codeSnippets'', f_codeSnippets fs), (''stackTraces'', f_stackTraces fs),
      (''labels'', f_labels fs), (''references'', f_references fs)]"

text \<open>\<open>weights[factor] || 0\<close>\<close>

definition weights :: "string \<Rightarrow> real" where
  "weights factor =
     (if factor = ''textLength'' then 0.1
      else if factor = ''technicalTerms'' then 0.3
      else if factor = ''codeSnippets'' then 0.2
      else if factor = ''stackTraces'' then 0.2
      else if factor = ''labels'' then 0.1
      else if factor = ''references'' then 0.1
      else 0)"

definition calculateComplexityScore :: "factors \<Rightarrow> real" where
  "calculateComplexityScore fs =
     (let score = foldl (\<lambda>score (factor, v). score + weights factor * min (real v / 10) 1)
                    0 (factor_entries fs)
      in min score 1)"

definition categorizeComplexity :: "real \<Rightarrow> string" where
  "categorizeComplexity score =
     (if score < 0.3 then ''low''
      else if score < 0.6 then ''medium''
      else if score < 0.8 then ''high''
      else ''very-high'')"

definition estimateEffort :: "real \<Rightarrow> int" where
  "estimateEffort complexityScore = (let baseHours = 2 in js_round (baseHours * (1 + complexityScore * 3)))"

definition recommendAgentCount :: "int \<Rightarrow> real \<Rightarrow> int" where
  "recommendAgentCount maxAgents complexityScore =
     min (max 2 (js_ceil (complexityScore * 8))) maxAgents"

record complexity =
  cx_score :: real
  cx_level :: string
  cx_factors :: factors
  cx_estimatedEffort :: int
  cx_recommendedAgents :: int

text \<open>\<open>issue.body?.length || 0\<close> and \<open>issue.labels?.length || 0\<close>\<close>

fun text_length :: "jstext \<Rightarrow> nat" where
  "text_length (Str s) = length s"
| "text_length _ = 0"

definition assessComplexity :: "int \<Rightarrow> runtime \<Rightarrow> issue \<Rightarrow> error + complexity" where
  "assessComplexity maxAgents rt iss =
     bindE (extractCodeSnippets rt (i_body iss)) (\<lambda>snippets.
     bindE (extractStackTraces rt (i_body iss)) (\<lambda>traces.
     bindE (extractReferences rt (i_body iss)) (\<lambda>refs.
     let fs = \<lparr>f_textLength = text_length (i_body iss),
               f_technicalTerms = countTechnicalTerms rt (issue_text iss),
               f_codeSnippets = length snippets,
               f_stackTraces = length traces,
               f_labels = (case i_labels iss of Some ls \<Rightarrow> length ls | None \<Rightarrow> 0),
               f_references = length refs\<rparr>;
         complexityScore = calculateComplexityScore fs
     in Inr \<lparr>cx_score = complexityScore,
             cx_level = categorizeComplexity complexityScore,
             cx_factors = fs,
             cx_estimatedEffort = estimateEffort complexityScore,
             cx_recommendedAgents = recommendAgentCount maxAgents complexityScore\<rparr>)))"

definition domains :: "(string \<times> string list) list" where
  "domains =
     [(''frontend'', [''ui'', ''react'', ''vue'', ''angular'', ''css'', ''html'', ''javascript'', ''typescript'']),
      (''backend'', [''api'', ''server'', ''database'', ''sql'', ''mongodb'', ''express'', ''node'']),
      (''devops'', [''docker'', ''kubernetes'', ''ci/cd'', ''deployment'', ''pipeline'', ''github actions'']),
      (''security'', [''auth'', ''security'', ''vulnerability'', ''permissions'', ''token'', ''encryption'']),
      (''performance'', [''slow'', ''optimization'', ''memory'', ''cpu'', ''performance'', ''bottleneck'']),
      (''testing'', [''test'', ''unit test'', ''integration'', ''e2e'', ''jest'', ''cypress'']),
      (''documentation'', [''docs'', ''readme'', ''documentation'', ''guide'', ''tutorial'']),
      (''bug'', [''error'', ''bug'', ''issue'', ''problem'', ''fail'', ''broken'', ''crash''])]"

definition classifyDomain :: "runtime \<Rightarrow> issue \<Rightarrow> string" where
  "classifyDomain rt iss =
     (let text = toLowerCase rt (issue_text iss)
      in fst (foldl (\<lambda>(bestDomain, bestScore) (domain, keywords).
                       let score = length (filter (\<lambda>keyword. str_includes text keyword) keywords)
                       in if score > bestScore then (domain, score) else (bestDomain, bestScore))
                (''general'', 0) domains))"

text \<open>
  \<open>label.name?.toLowerCase().includes(hp)\<close>: the optional chain yields \<open>undefined\<close>, which
  is falsy, when the name is missing.
\<close>

fun label_includes :: "runtime \<Rightarrow> label \<Rightarrow> string \<Rightarrow> bool" where
  "label_includes rt l hp =
     (case l_name l of Str s \<Rightarrow> str_includes (toLowerCase rt s) hp | _ \<Rightarrow> False)"

definition assessPriority :: "runtime \<Rightarrow> issue \<Rightarrow> real" where
  "assessPriority rt iss =
     (let priorityScore = 0.5;
          text = toLowerCase rt (issue_text iss);
          priorityScore =
            (if str_includes text ''critical'' \<or> str_includes text ''urgent''
                \<or> str_includes text ''production''
             then priorityScore + 0.3 else priorityScore);
          priorityScore =
            (if str_includes text ''security'' \<or> str_includes text ''vulnerability''
             then priorityScore + 0.2 else priorityScore);
          priorityScore =
            (if str_includes text ''user''
                \<and> (str_includes text ''error'' \<or> str_includes text ''bug'')
             then priorityScore + 0.2 else priorityScore);
          priorityScore =
            (case i_labels iss of
               Some ls \<Rightarrow>
                 (let highPriorityLabels = [''high'', ''critical'', ''urgent'', ''p1'', ''priority-high''];
                      hasHighPriority =
                        list_ex (\<lambda>l. list_ex (\<lambda>hp. label_includes rt l hp) highPriorityLabels) ls
                  in if hasHighPriority then priorityScore + 0.3 else priorityScore)
             | None \<Rightarrow> priorityScore)
      in min priorityScore 1.0)"

definition mapSolutionSpace :: "runtime \<Rightarrow> issue \<Rightarrow> string list" where
  "mapSolutionSpace rt iss =
     (let text = toLowerCase rt (issue_text iss);
          approaches = [];
          approaches =
            (if str_includes text ''bug'' \<or> str_includes text ''error''
             then approaches @ [''debugging'', ''error-handling'', ''root-cause-analysis'']
             else approaches);
          approaches =
            (if str_includes text ''feature'' \<or> str_includes text ''implement''
             then approaches @ [''feature-development'', ''architecture-design'', ''implementation'']
             else approaches);
          approaches =
            (if str_includes text ''performance'' \<or> str_includes text ''slow''
             then approaches @ [''optimization'', ''profiling'', ''caching'']
             else approaches);
          approaches =
            (if str_includes text ''test'' \<or> str_includes text ''testing''
             then approaches @ [''test-automation'', ''quality-assurance'', ''coverage-improvement'']
             else approaches)
      in if length approaches > 0 then approaches else [''general-problem-solving''])"

record risk =
  r_type :: string
  r_severity :: string
  r_mitigation :: string

definition assessRisks :: "runtime \<Rightarrow> issue \<Rightarrow> error + risk list" where
  "assessRisks rt iss =
     (let text = toLowerCase rt (issue_text iss);
          risks = [];
          risks =
            (if str_includes text ''database'' \<or> str_includes text ''migration''
             then risks @ [\<lparr>r_type = ''data-loss'', r_severity = ''high'', r_mitigation = ''backup-first''\<rparr>]
             else risks);
          risks =
            (if str_includes text ''production'' \<or> str_includes text ''live''
             then risks @ [\<lparr>r_type = ''service-disruption'', r_severity = ''medium'',
                            r_mitigation = ''staged-deployment''\<rparr>]
             else risks);
          risks =
            (if str_includes text ''security'' \<or> str_includes text ''auth''
             then risks @ [\<lparr>r_type = ''security-vulnerability'', r_severity = ''high'',
                            r_mitigation = ''security-review''\<rparr>]
             else risks)
      in bindE (extractCodeSnippets rt (i_body iss)) (\<lambda>snippets.
           Inr (if length snippets > 0
                then risks @ [\<lparr>r_type = ''code-quality'', r_severity = ''low'',
                               r_mitigation = ''code-review''\<rparr>]
                else risks)))"


section \<open>Classification and the analysis stage\<close>

text \<open>
  \<open>Math.random()\<close> and \<open>Date.now()\<close> are inputs of the model: \<open>rnd k\<close> is the \<open>k\<close>-th
  draw that a function makes, a real in \<open>[0, 1)\<close>, and \<open>now\<close> is the clock reading.
\<close>

type_synonym random_source = "nat \<Rightarrow> real"

text \<open>\<open>array.reduce(f)\<close> without an initial value throws on an empty array.\<close>

definition reduce1 :: "('a \<Rightarrow> 'a \<Rightarrow> 'a) \<Rightarrow> 'a list \<Rightarrow> error + 'a" where
  "reduce1 f xs = (case xs of [] \<Rightarrow> Inl TypeError | x # rest \<Rightarrow> Inr (foldl f x rest))"

record category_score =
  cs_category :: string
  cs_score :: real
  cs_features :: "key_term list"

record classification =
  cl_category :: string
  cl_confidence :: int
  cl_alternatives :: "category_score list"
  cl_features :: "key_term list"

text \<open>\<open>extractFeatures\<close> followed by \<open>features[category] || []\<close>.\<close>

definition extractFeatures :: "semantic \<Rightarrow> string \<Rightarrow> key_term list" where
  "extractFeatures sem category =
     (if category = ''bug'' then
        filter (\<lambda>t. kt_term t \<in> set [''error'', ''bug'', ''issue'', ''problem'', ''fail''])
          (sem_keyTerms sem)
      else if category = ''feature'' then
        filter (\<lambda>t. kt_term t \<in> set [''add'', ''new'', ''implement'', ''feature''])
          (sem_keyTerms sem)
      else if category = ''enhancement'' then
        filter (\<lambda>t. kt_term t \<in> set [''improve'', ''optimize'', ''enhance'', ''better''])
          (sem_keyTerms sem)
      else [])"

definition classify :: "random_source \<Rightarrow> semantic \<Rightarrow> error + classification" where
  "classify rnd sem =
     (let categories = [''bug'', ''feature'', ''enhancement'', ''documentation'',
                        ''performance'', ''security''];
          features = extractFeatures sem;
          scores = map (\<lambda>(k, category).
                          \<lparr>cs_category = category,
                           cs_score = rnd k * 0.4 + 0.6,
                           cs_features = features category\<rparr>)
                     (zip [0..<length categories] categories)
      in bindE (reduce1 (\<lambda>a b. if cs_score a > cs_score b then a else b) scores) (\<lambda>best.
           Inr \<lparr>cl_category = cs_category best,
                cl_confidence = js_round (cs_score best * 100),
                cl_alternatives =
                  array_sort (\<lambda>a b. Num (cs_score b - cs_score a))
                    (filter (\<lambda>s. s \<noteq> best) scores),
                cl_features = cs_features best\<rparr>))"

record analysis =
  a_sessionId :: string
  a_timestamp :: int
  a_semantic :: semantic
  a_complexity :: complexity
  a_patterns :: "pattern_match list"
  a_domain :: string
  a_priority :: real
  a_solutionSpace :: "string list"
  a_risks :: "risk list"
  a_neuralClassification :: classification

text \<open>The engine: the options and the part of \<open>state\<close> that the analysis reads.\<close>

record engine =
  e_maxAgents :: int
  e_learningEnabled :: bool
  e_patterns :: pattern_store

record session =
  ss_id :: string
  ss_issue :: issue
  ss_status :: string
  ss_analysis :: "analysis option"
  ss_patternsRecognized :: nat

text \<open>
  \<open>performDeepAnalysis\<close> returns the analysis and leaves it in the session. Log output
  is not modelled.
\<close>

definition performDeepAnalysis ::
  "engine \<Rightarrow> runtime \<Rightarrow> int \<Rightarrow> random_source \<Rightarrow> session \<Rightarrow> error + (analysis \<times> session)" where
  "performDeepAnalysis eng rt now rnd sess =
     (let iss = ss_issue sess;
          sem = analyzeSemantics rt iss
      in bindE (assessComplexity (e_maxAgents eng) rt iss) (\<lambda>cx.
         let pats = matchPatterns (e_patterns eng) iss;
             dom = classifyDomain rt iss;
             prio = assessPriority rt iss;
             space = mapSolutionSpace rt iss
         in bindE (assessRisks rt iss) (\<lambda>risks.
            bindE (classify rnd sem) (\<lambda>cls.
            let an = \<lparr>a_sessionId = ss_id sess, a_timestamp = now, a_semantic = sem,
                      a_complexity = cx, a_patterns = pats, a_domain = dom,
                      a_priority = prio, a_solutionSpace = space, a_risks = risks,
                      a_neuralClassification = cls\<rparr>
            in Inr (an, sess\<lparr>ss_analysis := Some an,
                             ss_patternsRecognized := length (a_patterns an)\<rparr>)))))"


section \<open>Agent coordination and planning\<close>

record insight =
  in_topic :: string
  in_consensus :: bool
  in_confidence :: real

record discussion =
  d_round :: nat
  d_participants :: "string list"
  d_topics :: "string list"
  d_insights :: "insight list"

text \<open>
  The two nested \<open>forEach\<close> loops of \<open>measureConvergence\<close> update the pair
  \<open>(convergenceScore, totalInsights)\<close>.
\<close>

definition convergence_step :: "real \<times> nat \<Rightarrow> insight \<Rightarrow> real \<times> nat" where
  "convergence_step acc ins =
     (case acc of (convergenceScore, totalInsights) \<Rightarrow>
        (if in_consensus ins then convergenceScore + in_confidence ins else convergenceScore,
         totalInsights + 1))"

definition measureConvergence :: "discussion list \<Rightarrow> real" where
  "measureConvergence discussions =
     (case foldl (\<lambda>acc d. foldl convergence_step acc (d_insights d)) (0, 0) discussions of
        (convergenceScore, totalInsights) \<Rightarrow>
          if totalInsights > 0 then convergenceScore / real totalInsights else 0.5)"

record agent_spec =
  ag_type :: string
  ag_specialization :: string
  ag_capabilities :: "string list"
  ag_intelligenceLevel :: string
  ag_focus :: string
  ag_reasoningType :: string
  ag_creativityLevel :: real

record strategy =
  sg_agents :: "agent_spec list"
  sg_coordination :: string
  sg_communication :: string
  sg_decisionMaking :: string
  sg_expectedSynergy :: real

record strategy_context =
  ctx_maxAgents :: int
  ctx_complexity :: string
  ctx_domain :: string
  ctx_patterns :: "pattern_match list"

text \<open>
  \<open>mapping[complexity] || 3\<close>. The key is a tier name or another string that is not a
  property of \<open>Object.prototype\<close>.
\<close>

definition complexityToAgentCount :: "string \<Rightarrow> nat" where
  "complexityToAgentCount c =
     (if c = ''low'' then 2
      else if c = ''medium'' then 4
      else if c = ''high'' then 6
      else if c = ''very-high'' then 8
      else 3)"

definition agentTypes :: "string list" where
  "agentTypes =
     [''analyzer'', ''implementer'', ''tester'', ''reviewer'', ''coordinator'',
      ''optimizer'', ''validator'', ''documenter'', ''security-specialist'', ''performance-expert'']"

definition getSpecialization :: "string \<Rightarrow> string" where
  "getSpecialization t =
     (case map_of
        [(''analyzer'', ''Problem decomposition and root cause analysis''),
         (''implementer'', ''Code generation and solution implementation''),
         (''tester'', ''Quality assurance and test case generation''),
         (''reviewer'', ''Code review and quality validation''),
         (''coordinator'', ''Team coordination and workflow management''),
         (''optimizer'', ''Performance optimization and efficiency''),
         (''validator'', ''Solution validation and verification''),
         (''documenter'', ''Documentation and knowledge management''),
         (''security-specialist'', ''Security analysis and vulnerability assessment''),
         (''performance-expert'', ''Performance analysis and optimization'')] t of
        Some v \<Rightarrow> v | None \<Rightarrow> ''General problem solving'')"

definition getCapabilities :: "string \<Rightarrow> string list" where
  "getCapabilities t =
     (case map_of
        [(''analyzer'', [''pattern-recognition'', ''root-cause-analysis'', ''decomposition'']),
         (''implementer'', [''code-generation'', ''algorithm-design'', ''architecture'']),
         (''tester'', [''test-generation'', ''quality-assurance'', ''validation'']),
         (''reviewer'', [''code-review'', ''quality-metrics'', ''best-practices'']),
         (''coordinator'', [''workflow-management'', ''resource-allocation'', ''communication'']),
         (''optimizer'', [''performance-tuning'', ''efficiency-analysis'', ''bottleneck-detection'']),
         (''validator'', [''verification'', ''compliance-checking'', ''standards-validation'']),
         (''documenter'', [''documentation'', ''knowledge-capture'', ''explanation'']),
         (''security-specialist'', [''vulnerability-analysis'', ''security-testing'', ''threat-modeling'']),
         (''performance-expert'', [''profiling'', ''optimization'', ''scalability-analysis''])] t of
        Some v \<Rightarrow> v | None \<Rightarrow> [''general-intelligence''])"

text \<open>
  The loop \<open>for (i = 0; i < recommendedCount; i++)\<close> runs \<open>nat recommendedCount\<close> times:
  not at all when the count is zero or negative.
\<close>

definition generateStrategy :: "strategy_context \<Rightarrow> strategy" where
  "generateStrategy ctx =
     (let complexity = ctx_complexity ctx;
          maxAgents = ctx_maxAgents ctx;
          recommendedCount =
            min (max 2 (js_ceil (real (complexityToAgentCount complexity)))) maxAgents;
          agents =
            map (\<lambda>i. let t = agentTypes ! (i mod length agentTypes)
                      in \<lparr>ag_type = t,
                          ag_specialization = getSpecialization t,
                          ag_capabilities = getCapabilities t,
                          ag_intelligenceLevel = ''high'',
                          ag_focus = (if ctx_domain ctx \<noteq> [] then ctx_domain ctx else ''general''),
                          ag_reasoningType = ''analytical'',
                          ag_creativityLevel = 0.8\<rparr>)
              [0..<nat recommendedCount]
      in \<lparr>sg_agents = agents,
          sg_coordination = ''swarm-intelligence'',
          sg_communication = ''neural-network'',
          sg_decisionMaking = ''consensus-based'',
          sg_expectedSynergy = 0.9\<rparr>)"


section \<open>Quality assessment\<close>

record solution =
  so_id :: string
  so_approach :: string
  so_description :: string
  so_confidence :: real
  so_steps :: "string list"
  so_files :: "string list"
  so_code :: jstext
  so_tests :: jstext
  so_documentation :: jstext
  so_estimatedTime :: int
  so_complexity :: string

record metrics =
  mt_completeness :: real
  mt_correctness :: real
  mt_maintainability :: real
  mt_performance :: real
  mt_security :: real
  mt_testability :: real
  mt_documentation :: real

text \<open>
  The score is computed over the reals. With doubles the sums \<open>0.7 + 0.1\<close> and
  \<open>0.7 + 0.1 + 0.1\<close> are the numbers next below 0.8 and 0.9, so a comparison of such a
  sum with exactly that bound can come out differently in the runtime; no statement
  below rests on such a comparison.
\<close>

definition assessCompleteness :: "solution \<Rightarrow> real" where
  "assessCompleteness sol =
     (let score = 0.7;
          score = (if truthy (so_code sol) then score + 0.1 else score);
          score = (if truthy (so_tests sol) then score + 0.1 else score);
          score = (if truthy (so_documentation sol) then score + 0.1 else score)
      in min score 1.0)"

definition assessCorrectness :: "real \<Rightarrow> solution \<Rightarrow> real" where
  "assessCorrectness r sol = 0.8 + r * 0.2"

definition assessMaintainability :: "real \<Rightarrow> solution \<Rightarrow> real" where
  "assessMaintainability r sol = 0.75 + r * 0.25"

definition assessPerformance :: "real \<Rightarrow> solution \<Rightarrow> real" where
  "assessPerformance r sol = 0.8 + r * 0.2"

definition assessSecurity :: "real \<Rightarrow> solution \<Rightarrow> real" where
  "assessSecurity r sol = 0.85 + r * 0.15"

definition assessTestability :: "solution \<Rightarrow> real" where
  "assessTestability sol = (if truthy (so_tests sol) then 0.9 else 0.6)"

definition assessDocumentation :: "solution \<Rightarrow> real" where
  "assessDocumentation sol = (if truthy (so_documentation sol) then 0.85 else 0.5)"

definition generateRecommendations :: "metrics \<Rightarrow> string list" where
  "generateRecommendations m =
     (let recommendations = [];
          recommendations =
            (if mt_completeness m < 0.8
             then recommendations @ [''Add missing implementation components'']
             else recommendations);
          recommendations =
            (if mt_testability m < 0.8
             then recommendations @ [''Improve test coverage and quality'']
             else recommendations);
          recommendations =
            (if mt_documentation m < 0.8
             then recommendations @ [''Enhance documentation and examples'']
             else recommendations)
      in recommendations)"

record assessment =
  as_score :: real
  as_confidence :: real
  as_metrics :: metrics
  as_recommendations :: "string list"
  as_timestamp :: int
  as_completeness :: real
  as_maintainability :: real

definition metric_values :: "metrics \<Rightarrow> real list" where
  "metric_values m =
     [mt_completeness m, mt_correctness m, mt_maintainability m, mt_performance m,
      mt_security m, mt_testability m, mt_documentation m]"

text \<open>
  \<open>assess\<close> draws five random numbers, in this order: correctness, maintainability,
  performance, security, and the confidence of the assessment.
\<close>

definition assess :: "random_source \<Rightarrow> int \<Rightarrow> solution \<Rightarrow> assessment" where
  "assess rnd now sol =
     (let m = \<lparr>mt_completeness = assessCompleteness sol,
               mt_correctness = assessCorrectness (rnd 0) sol,
               mt_maintainability = assessMaintainability (rnd 1) sol,
               mt_performance = assessPerformance (rnd 2) sol,
               mt_security = assessSecurity (rnd 3) sol,
               mt_testability = assessTestability sol,
               mt_documentation = assessDocumentation sol\<rparr>;
          overallScore = foldl (\<lambda>sum score. sum + score) 0 (metric_values m)
                         / real (length (metric_values m))
      in \<lparr>as_score = overallScore,
          as_confidence = 0.85 + rnd 4 * 0.15,
          as_metrics = m,
          as_recommendations = generateRecommendations m,
          as_timestamp = now,
          as_completeness = mt_completeness m,
          as_maintainability = mt_maintainability m\<rparr>)"


section \<open>Orchestrator (hive-mind-orchestrator.js)\<close>

record quality =
  q_score :: real
  q_confidence :: real
  q_completeness :: real
  q_maintainability :: real

record implementation =
  im_approach :: string
  im_steps :: "string list"
  im_files :: "string list option"
  im_code :: jstext
  im_tests :: jstext
  im_documentation :: jstext

text \<open>The \<open>result\<close> of a run of the engine, as \<open>generateFinalOutput\<close> builds it.\<close>

record final_output =
  fo_solution :: solution
  fo_implementation :: implementation
  fo_quality :: quality
  fo_recommendations :: "string list"
  fo_alternatives :: "solution list"

record hive_result =
  hr_agentsUsed :: nat
  hr_patternsRecognized :: nat
  hr_qualityScore :: real
  hr_duration :: int
  hr_result :: final_output

text \<open>
  The content of a generated file: the code of the solution, or the placeholder that
  \<open>generatePlaceholderCode\<close> writes for the file name.
\<close>

datatype file_content = Given string | Placeholder string

record artifact_file =
  af_path :: string
  af_content :: file_content
  af_type :: string

record artifact_text =
  at_path :: string
  at_content :: string
  at_kind :: string

record artifacts =
  ar_files :: "artifact_file list"
  ar_tests :: "artifact_text list"
  ar_documentation :: "artifact_text list"
  ar_configuration :: "artifact_text list"

text \<open>\<open>path.extname\<close> belongs to the runtime and is a parameter.\<close>

definition determineFileType :: "(string \<Rightarrow> string) \<Rightarrow> string \<Rightarrow> string" where
  "determineFileType extname filename =
     (case map_of
        [(''.js'', ''JavaScript''), (''.ts'', ''TypeScript''), (''.py'', ''Python''),
         (''.java'', ''Java''), (''.cpp'', ''C++''), (''.c'', ''C''), (''.go'', ''Go''),
         (''.rs'', ''Rust''), (''.php'', ''PHP''), (''.rb'', ''Ruby''), (''.md'', ''Markdown''),
         (''.json'', ''JSON''), (''.yml'', ''YAML''), (''.yaml'', ''YAML'')] (extname filename) of
        Some t \<Rightarrow> t | None \<Rightarrow> ''Unknown'')"

definition generateImplementationArtifacts ::
  "(string \<Rightarrow> string) \<Rightarrow> final_output \<Rightarrow> artifacts" where
  "generateImplementationArtifacts extname result =
     (let impl = fo_implementation result
      in \<lparr>ar_files =
            (case im_files impl of
               Some fs \<Rightarrow>
                 map (\<lambda>file. \<lparr>af_path = file,
                               af_content = (if truthy (im_code impl)
                                             then Given (js_string (im_code impl))
                                             else Placeholder file),
                               af_type = determineFileType extname file\<rparr>) fs
             | None \<Rightarrow> []),
          ar_tests =
            (if truthy (im_tests impl)
             then [\<lparr>at_path = ''tests/hive-mind-solution.test.js'',
                    at_content = js_string (im_tests impl), at_kind = ''jest''\<rparr>]
             else []),
          ar_documentation =
            (if truthy (im_documentation impl)
             then [\<lparr>at_path = ''docs/hive-mind-solution.md'',
                    at_content = js_string (im_documentation impl), at_kind = ''markdown''\<rparr>]
             else []),
          ar_configuration = []\<rparr>)"

record intelligence =
  it_level :: string
  it_agentsUsed :: nat
  it_patternsRecognized :: nat
  it_qualityScore :: real
  it_duration :: int

record processed_result =
  pr_sessionId :: string
  pr_issueNumber :: int
  pr_timestamp :: int
  pr_solution :: solution
  pr_implementation :: implementation
  pr_quality :: quality
  pr_intelligence :: intelligence
  pr_recommendations :: "string list"
  pr_alternatives :: "solution list"
  pr_artifacts :: artifacts

record orch_session =
  os_id :: string
  os_issueNumber :: int
  os_issueData :: issue
  os_startTime :: int
  os_status :: string
  os_engines :: "string list"
  os_error :: "error option"

definition processHiveMindResult ::
  "(string \<Rightarrow> string) \<Rightarrow> int \<Rightarrow> orch_session \<Rightarrow> hive_result \<Rightarrow> processed_result" where
  "processHiveMindResult extname now sess result =
     \<lparr>pr_sessionId = os_id sess,
      pr_issueNumber = os_issueNumber sess,
      pr_timestamp = now,
      pr_solution = fo_solution (hr_result result),
      pr_implementation = fo_implementation (hr_result result),
      pr_quality = fo_quality (hr_result result),
      pr_intelligence =
        \<lparr>it_level = ''advanced-hive-mind'', it_agentsUsed = hr_agentsUsed result,
         it_patternsRecognized = hr_patternsRecognized result,
         it_qualityScore = hr_qualityScore result, it_duration = hr_duration result\<rparr>,
      pr_recommendations = fo_recommendations (hr_result result),
      pr_alternatives = fo_alternatives (hr_result result),
      pr_artifacts = generateImplementationArtifacts extname (hr_result result)\<rparr>"

definition shouldCreatePR :: "processed_result \<Rightarrow> bool" where
  "shouldCreatePR result =
     (q_score (pr_quality result) > 0.8 \<and>
      q_completeness (pr_quality result) > 0.9 \<and>
      length (ar_files (pr_artifacts result)) > 0)"

text \<open>
  The issue tracker is outside the repository. Its answers are inputs: each field is
  the outcome of the request, or of the sequence of requests, that one method of the
  orchestrator sends; \<open>Inl\<close> is the error that the client library throws.
\<close>

record comment_ref =
  cm_id :: nat
  cm_url :: string

record pull_data =
  pd_number :: nat
  pd_html_url :: string

record tracker =
  tr_fetch :: "error + issue"
  tr_createComment :: "error + comment_ref"
  tr_addLabels :: "error + unit"
  tr_pullRequest :: "error + pull_data"

text \<open>
  A label that the orchestrator adds: a fixed text, \<open>quality-N\<close> for the rounded score,
  or \<open>complexity-T\<close> for the tier of the solution.
\<close>

datatype issue_label = Fixed string | QualityLabel int | ComplexityLabel string

record analysis_comment =
  ac_id :: nat
  ac_url :: string
  ac_type :: string

definition createAnalysisComment ::
  "tracker \<Rightarrow> orch_session \<Rightarrow> processed_result \<Rightarrow> error + analysis_comment" where
  "createAnalysisComment tr sess result =
     bindE (tr_createComment tr) (\<lambda>response.
       Inr \<lparr>ac_id = cm_id response, ac_url = cm_url response, ac_type = ''analysis''\<rparr>)"

definition addLabelsToIssue ::
  "tracker \<Rightarrow> orch_session \<Rightarrow> processed_result \<Rightarrow> issue_label list" where
  "addLabelsToIssue tr sess result =
     (let labels = [Fixed ''hive-mind-analyzed'', Fixed ''ai-solution-ready'',
                    QualityLabel (js_round (q_score (pr_quality result) * 100))];
          labels = (if so_complexity (pr_solution result) \<noteq> []
                    then labels @ [ComplexityLabel (so_complexity (pr_solution result))]
                    else labels);
          labels = (if so_approach (pr_solution result) \<noteq> []
                    then labels @ [Fixed ''ai-generated'']
                    else labels)
      in case tr_addLabels tr of Inr _ \<Rightarrow> labels | Inl _ \<Rightarrow> [])"

text \<open>
  What \<open>createPullRequest\<close> returns: the pull request that was opened, or the note that
  the branch exists (status 422), in which case no pull request was opened.
\<close>

datatype pull_request =
    PullRequest nat string int string
  | BranchExists int

definition createPullRequest ::
  "tracker \<Rightarrow> orch_session \<Rightarrow> processed_result \<Rightarrow> error + pull_request" where
  "createPullRequest tr sess result =
     (case tr_pullRequest tr of
        Inr pr \<Rightarrow>
          Inr (PullRequest (pd_number pr) (pd_html_url pr) (os_issueNumber sess)
                 (js_string (i_title (os_issueData sess))))
      | Inl err \<Rightarrow>
          (case err of
             RequestError status msg \<Rightarrow>
               if status = 422 then Inr (BranchExists (os_issueNumber sess)) else Inl err
           | _ \<Rightarrow> Inl err))"

record github_result =
  gr_comments :: "analysis_comment list"
  gr_labels :: "issue_label list"
  gr_pullRequest :: "pull_request option"
  gr_timestamp :: int
  gr_error :: "error option"

text \<open>The options of the orchestrator and its two maps, in insertion order.\<close>

record orchestrator =
  o_maxConcurrentSessions :: int
  o_autoCreatePR :: bool
  o_learningEnabled :: bool
  o_activeSessions :: "(string \<times> orch_session) list"
  o_engines :: "(string \<times> engine) list"
  o_results :: "(string \<times> string \<times> bool \<times> error option) list"

text \<open>
  \<open>publishToGitHub\<close>: an error thrown inside the \<open>try\<close> block ends the block and is
  recorded in the result; what the block had stored before stays.
\<close>

definition publishToGitHub ::
  "orchestrator \<Rightarrow> tracker \<Rightarrow> int \<Rightarrow> orch_session \<Rightarrow> processed_result \<Rightarrow> github_result" where
  "publishToGitHub orch tr now sess processedResult =
     (let githubResult = \<lparr>gr_comments = [], gr_labels = [], gr_pullRequest = None,
                          gr_timestamp = now, gr_error = None\<rparr>
      in case createAnalysisComment tr sess processedResult of
           Inl err \<Rightarrow> githubResult\<lparr>gr_error := Some err\<rparr>
         | Inr analysisComment \<Rightarrow>
             (let githubResult = githubResult\<lparr>gr_comments := gr_comments githubResult @ [analysisComment]\<rparr>;
                  labels = addLabelsToIssue tr sess processedResult;
                  githubResult = githubResult\<lparr>gr_labels := labels\<rparr>
              in if o_autoCreatePR orch \<and> shouldCreatePR processedResult
                 then (case createPullRequest tr sess processedResult of
                         Inl err \<Rightarrow> githubResult\<lparr>gr_error := Some err\<rparr>
                       | Inr pullRequest \<Rightarrow> githubResult\<lparr>gr_pullRequest := Some pullRequest\<rparr>)
                 else githubResult))"

text \<open>
  \<open>persistResults\<close> stores, under the id of the session, its status, the success flag
  and the error. A failure of the file system is caught and the store stays as it was.
\<close>

definition persistResults :: "bool \<Rightarrow> orch_session \<Rightarrow> orchestrator \<Rightarrow> orchestrator" where
  "persistResults fs_ok sess orch =
     (if fs_ok
      then orch\<lparr>o_results :=
             AList.update (os_id sess)
               (os_status sess, os_status sess = ''completed'', os_error sess) (o_results orch)\<rparr>
      else orch)"

text \<open>
  The inputs of one call of \<open>resolveIssue\<close> that the orchestrator does not compute:
  the identifier from \<open>crypto.randomUUID()\<close>, the clock, the answers of the issue
  tracker, the patterns file that the constructor of the engine loads, the outcome of
  the run of the engine (\<open>Inl\<close> when \<open>spawnHiveMind\<close> throws), and whether the results
  file can be written.
\<close>

record environment =
  ev_uuid :: string
  ev_now :: int
  ev_tracker :: tracker
  ev_patterns :: pattern_store
  ev_engine :: "error + hive_result"
  ev_extname :: "string \<Rightarrow> string"
  ev_fs_ok :: bool

definition fetchCompleteIssueData :: "tracker \<Rightarrow> int \<Rightarrow> error + issue" where
  "fetchCompleteIssueData tr issueNumber =
     (case tr_fetch tr of
        Inr iss \<Rightarrow> Inr iss
      | Inl err \<Rightarrow>
          Inl (UnableToFetch issueNumber
                 (case err of Error m \<Rightarrow> m | RequestError _ m \<Rightarrow> m
                  | UnableToFetch _ m \<Rightarrow> m | TypeError \<Rightarrow> [])))"

record resolve_result =
  rr_success :: bool
  rr_orchestrationId :: string
  rr_issueNumber :: int
  rr_engines :: nat
  rr_agents :: nat
  rr_qualityScore :: real
  rr_githubResult :: github_result

text \<open>
  \<open>resolveIssue\<close> is an \<open>async\<close> function: it runs until it awaits, and other calls run
  while it is suspended. A suspended call is \<open>Fetching\<close>, between the capacity check and
  the answer of \<open>fetchCompleteIssueData\<close>, with its identifier, issue number and start
  time; or \<open>Executing\<close>, with its session in the map, until \<open>engine.spawnHiveMind\<close>
  answers. A step of a call ends with the call rejected, suspended or resolved.
\<close>

datatype pending =
    Fetching string int int
  | Executing orch_session

datatype step = Rejected error | Suspended pending | Resolved resolve_result

text \<open>
  The \<open>catch\<close> block of \<open>resolveIssue\<close>: when the session of this call is in the map, it
  is marked failed, reported, persisted and removed; the error is thrown again. The
  report is a comment on the issue; \<open>reportErrorToGitHub\<close> swallows its own errors and
  changes nothing in the orchestrator. The block awaits the report and the write, with
  the session still in the map; the map changes at the end only, and the block is
  one step.
\<close>

definition resolve_catch ::
  "environment \<Rightarrow> string \<Rightarrow> error \<Rightarrow> orchestrator \<Rightarrow> step \<times> orchestrator" where
  "resolve_catch env orchestrationId err orch =
     (case map_of (o_activeSessions orch) orchestrationId of
        Some sess \<Rightarrow>
          (let sess = sess\<lparr>os_status := ''failed'', os_error := Some err\<rparr>;
               orch = persistResults (ev_fs_ok env) sess orch;
               orch = orch\<lparr>o_activeSessions := AList.delete orchestrationId (o_activeSessions orch),
                           o_engines := AList.delete orchestrationId (o_engines orch)\<rparr>
           in (Rejected err, orch))
      | None \<Rightarrow> (Rejected err, orch))"

text \<open>
  The call of \<open>resolveIssue\<close>, up to its first \<open>await\<close>: the identifier is drawn, the
  capacity is checked against the size of the map, and the request for the issue is
  sent. Nothing is stored in the map before the issue has arrived.
\<close>

definition resolveIssue :: "environment \<Rightarrow> int \<Rightarrow> orchestrator \<Rightarrow> step \<times> orchestrator" where
  "resolveIssue env issueNumber orch =
     (let orchestrationId = ev_uuid env;
          startTime = ev_now env
      in if int (length (o_activeSessions orch)) \<ge> o_maxConcurrentSessions orch
         then resolve_catch env orchestrationId
                (Error ''Maximum concurrent sessions reached. Please wait for completion.'') orch
         else (Suspended (Fetching orchestrationId issueNumber startTime), orch))"

text \<open>
  The continuation of a suspended call when the awaited answer arrives, on the
  orchestrator as the other calls have left it. After \<open>Fetching\<close>: the session is
  created and stored, the engine is created and started. After \<open>Executing\<close>: the result
  is processed, published and persisted and the session is removed; the suspensions
  of this last part (the requests of \<open>publishToGitHub\<close>, the write of the results)
  happen with the session still in the map, which changes at the end only, and the
  part is one step.
\<close>

definition resolveIssue_resume ::
  "environment \<Rightarrow> pending \<Rightarrow> orchestrator \<Rightarrow> step \<times> orchestrator" where
  "resolveIssue_resume env p orch =
     (case p of
        Fetching orchestrationId issueNumber startTime \<Rightarrow>
          (case fetchCompleteIssueData (ev_tracker env) issueNumber of
             Inl err \<Rightarrow> resolve_catch env orchestrationId err orch
           | Inr completeIssue \<Rightarrow>
               (let sess = \<lparr>os_id = orchestrationId, os_issueNumber = i_number completeIssue,
                            os_issueData = completeIssue, os_startTime = startTime,
                            os_status = ''initializing'', os_engines = [], os_error = None\<rparr>;
                    eng = \<lparr>e_maxAgents = 15, e_learningEnabled = o_learningEnabled orch,
                           e_patterns = ev_patterns env\<rparr>;
                    sess = sess\<lparr>os_engines := [orchestrationId], os_status := ''executing''\<rparr>;
                    orch = orch\<lparr>o_activeSessions :=
                                  AList.update orchestrationId sess (o_activeSessions orch),
                                o_engines := AList.update orchestrationId eng (o_engines orch)\<rparr>
                in (Suspended (Executing sess), orch)))
      | Executing sess \<Rightarrow>
          (let orchestrationId = os_id sess
           in case ev_engine env of
                Inl err \<Rightarrow> resolve_catch env orchestrationId err orch
              | Inr hiveMindResult \<Rightarrow>
                  (let sess = sess\<lparr>os_status := ''processing''\<rparr>;
                       processedResult =
                         processHiveMindResult (ev_extname env) (ev_now env) sess hiveMindResult;
                       sess = sess\<lparr>os_status := ''publishing''\<rparr>;
                       githubResult =
                         publishToGitHub orch (ev_tracker env) (ev_now env) sess processedResult;
                       sess = sess\<lparr>os_status := ''completed''\<rparr>;
                       orch = persistResults (ev_fs_ok env) sess orch;
                       orch = orch\<lparr>o_activeSessions :=
                                     AList.delete orchestrationId (o_activeSessions orch),
                                   o_engines := AList.delete orchestrationId (o_engines orch)\<rparr>
                   in (Resolved \<lparr>rr_success = True, rr_orchestrationId = orchestrationId,
                                  rr_issueNumber = os_issueNumber sess,
                                  rr_engines = length (os_engines sess),
                                  rr_agents = hr_agentsUsed hiveMindResult,
                                  rr_qualityScore = hr_qualityScore hiveMindResult,
                                  rr_githubResult = githubResult\<rparr>, orch))))"


section \<open>Notions used in the statements\<close>

text \<open>A number that is \<open>NaN\<close> or lies in \<open>[0, b]\<close>.\<close>

definition small :: "real \<Rightarrow> jsnum \<Rightarrow> bool" where
  "small b x = (case x of NaN \<Rightarrow> True | Num r \<Rightarrow> 0 \<le> r \<and> r \<le> b | _ \<Rightarrow> False)"

fun is_finite :: "jsnum \<Rightarrow> bool" where
  "is_finite (Num a) = True"
| "is_finite _ = False"


text \<open>The entry that \<open>matchPatterns\<close> pushes for a stored pattern.\<close>

definition match_entry ::
  "(issue \<Rightarrow> signature \<Rightarrow> jsnum) \<Rightarrow> issue \<Rightarrow> string \<Rightarrow> pattern \<Rightarrow> pattern_match" where
  "match_entry sim iss pid pat =
     \<lparr>m_id = pid, m_similarity = sim iss (p_signature pat), m_pattern = pat,
      m_confidence = js_mul (sim iss (p_signature pat)) (Num (p_successRate pat))\<rparr>"

text \<open>The scorer does not return \<open>Infinity\<close> on the signatures of the store.\<close>

definition finite_scores ::
  "(issue \<Rightarrow> signature \<Rightarrow> jsnum) \<Rightarrow> issue \<Rightarrow> pattern_store \<Rightarrow> bool" where
  "finite_scores sim iss store = list_all (\<lambda>(pid, pat). sim iss (p_signature pat) \<noteq> PInf) store"

text \<open>
  Every entry has a similarity above 0.7 and the confidence
  \<open>similarity * successRate\<close>, and the confidences descend along the list.
\<close>

definition above_threshold_sorted :: "pattern_match list \<Rightarrow> bool" where
  "above_threshold_sorted ms =
     ((\<forall>m \<in> set ms. js_gt (m_similarity m) 0.7 \<and>
          m_confidence m = js_mul (m_similarity m) (Num (p_successRate (m_pattern m))))
      \<and> sorted_wrt (\<lambda>a b. js_geq (m_confidence a) (m_confidence b)) ms)"

text \<open>The insights of all rounds, in the order in which the loops visit them.\<close>

definition all_insights :: "discussion list \<Rightarrow> insight list" where
  "all_insights ds = concat (map d_insights ds)"

text \<open>
  The convergence score in the words of the specification: the mean confidence of the
  insights that reached consensus with a confidence above 0.7, and 0.5 when there is
  none. It is compared with \<open>measureConvergence\<close> below.
\<close>

definition convergence_as_specified :: "discussion list \<Rightarrow> real" where
  "convergence_as_specified ds =
     (let agreed = filter (\<lambda>i. in_consensus i \<and> in_confidence i > 0.7) (all_insights ds)
      in if agreed = [] then 0.5 else sum_list (map in_confidence agreed) / real (length agreed))"

text \<open>The analysis object, given the results of the three steps that can fail.\<close>

definition analysis_of ::
  "engine \<Rightarrow> runtime \<Rightarrow> session \<Rightarrow> complexity \<Rightarrow> risk list \<Rightarrow> int \<Rightarrow> classification
   \<Rightarrow> analysis" where
  "analysis_of eng rt sess cx risks now cls =
     \<lparr>a_sessionId = ss_id sess, a_timestamp = now,
      a_semantic = analyzeSemantics rt (ss_issue sess),
      a_complexity = cx, a_patterns = matchPatterns (e_patterns eng) (ss_issue sess),
      a_domain = classifyDomain rt (ss_issue sess),
      a_priority = assessPriority rt (ss_issue sess),
      a_solutionSpace = mapSolutionSpace rt (ss_issue sess), a_risks = risks,
      a_neuralClassification = cls\<rparr>"

text \<open>The category that a run of the analysis stage reports.\<close>

definition reported_category :: "error + (analysis \<times> session) \<Rightarrow> string option" where
  "reported_category r =
     (case r of Inr (an, _) \<Rightarrow> Some (cl_category (a_neuralClassification an)) | Inl _ \<Rightarrow> None)"


section \<open>Concrete inputs\<close>

definition ex_issue :: issue where
  "ex_issue = \<lparr>i_number = 7, i_title = Str ''Login fails with 500'', i_body = Null,
                i_labels = None, i_domain = None, i_complexity = None, i_keyTerms = None,
                i_category = None\<rparr>"

text \<open>A scorer that rates a signature by its domain tag alone.\<close>

definition ex_scorer :: "issue \<Rightarrow> signature \<Rightarrow> jsnum" where
  "ex_scorer iss sg =
     (if s_domain sg = Some ''a'' then Num 0.9
      else if s_domain sg = Some ''b'' then Num 0.75
      else Num 0.5)"

definition ex_pattern :: "string \<Rightarrow> real \<Rightarrow> pattern" where
  "ex_pattern d rate =
     \<lparr>p_type = ''successful-approach'',
      p_signature = \<lparr>s_domain = Some d, s_complexity = Some ''low'', s_keyTerms = Some [],
                     s_category = Some ''bug''\<rparr>,
      p_approach = Some ''AI-Generated Approach 1'', p_successRate = rate, p_confidence = 0.9\<rparr>"

definition ex_store :: pattern_store where
  "ex_store = [(''p75'', ex_pattern ''b'' 1), (''p90'', ex_pattern ''a'' 1),
               (''p50'', ex_pattern ''c'' 1)]"


definition rnd_zero :: random_source where
  "rnd_zero k = 0"

definition rnd_first :: random_source where
  "rnd_first k = (if k = 0 then 1 / 2 else 0)"

definition ex_runtime :: runtime where
  "ex_runtime = \<lparr>toLowerCase = (\<lambda>s. s), re_match = (\<lambda>re s. None),
                  re_replace = (\<lambda>re s r. s), re_split = (\<lambda>re s. [s])\<rparr>"

definition ex_engine :: engine where
  "ex_engine = \<lparr>e_maxAgents = 15, e_learningEnabled = True, e_patterns = []\<rparr>"

definition ex_session :: session where
  "ex_session = \<lparr>ss_id = ''s1'', ss_issue = ex_issue, ss_status = ''analyzing'',
                  ss_analysis = None, ss_patternsRecognized = 0\<rparr>"

definition ex_discussions :: "discussion list" where
  "ex_discussions =
     [\<lparr>d_round = 1, d_participants = [''a1'', ''a2''],
       d_topics = [''solution-approach'', ''risk-mitigation''],
       d_insights =
         [\<lparr>in_topic = ''solution-approach'', in_consensus = True, in_confidence = 0.9\<rparr>,
          \<lparr>in_topic = ''risk-mitigation'', in_consensus = False, in_confidence = 0.8\<rparr>]\<rparr>]"

definition ex_solution :: solution where
  "ex_solution =
     \<lparr>so_id = ''sol-1'', so_approach = ''AI-Generated Approach 1'',
      so_description = ''Advanced solution using neural pattern recognition'',
      so_confidence = 0.8, so_steps = [''Analyze problem context using AI''],
      so_files = [''solution-1.js'', ''tests/solution-1.test.js'', ''docs/solution-1.md''],
      so_code = Str ''code'', so_tests = Str ''tests'', so_documentation = Str ''docs'',
      so_estimatedTime = 30, so_complexity = ''low''\<rparr>"

definition ex_context :: strategy_context where
  "ex_context = \<lparr>ctx_maxAgents = 15, ctx_complexity = ''high'', ctx_domain = ''backend'',
                  ctx_patterns = []\<rparr>"

definition ex_processed :: processed_result where
  "ex_processed =
     \<lparr>pr_sessionId = ''o-2'', pr_issueNumber = 7, pr_timestamp = 0,
      pr_solution = ex_solution,
      pr_implementation =
        \<lparr>im_approach = ''AI-Generated Approach 1'', im_steps = [''Analyze problem context using AI''],
         im_files = Some [''solution-1.js''], im_code = Str ''code'', im_tests = Str ''tests'',
         im_documentation = Str ''docs''\<rparr>,
      pr_quality = \<lparr>q_score = 0.9, q_confidence = 0.9, q_completeness = 1,
                    q_maintainability = 0.8\<rparr>,
      pr_intelligence = \<lparr>it_level = ''advanced-hive-mind'', it_agentsUsed = 2,
                         it_patternsRecognized = 0, it_qualityScore = 0.9, it_duration = 1000\<rparr>,
      pr_recommendations = [], pr_alternatives = [],
      pr_artifacts =
        \<lparr>ar_files = [\<lparr>af_path = ''solution-1.js'', af_content = Given ''code'',
                       af_type = ''JavaScript''\<rparr>],
         ar_tests = [], ar_documentation = [], ar_configuration = []\<rparr>\<rparr>"

definition ex_tracker :: tracker where
  "ex_tracker =
     \<lparr>tr_fetch = Inr ex_issue,
      tr_createComment = Inr \<lparr>cm_id = 1, cm_url = ''https://example.org/c/1''\<rparr>,
      tr_addLabels = Inr (),
      tr_pullRequest = Inr \<lparr>pd_number = 8, pd_html_url = ''https://example.org/pull/8''\<rparr>\<rparr>"

definition ex_orch_session :: orch_session where
  "ex_orch_session =
     \<lparr>os_id = ''o-1'', os_issueNumber = 7, os_issueData = ex_issue, os_startTime = 0,
      os_status = ''executing'', os_engines = [''o-1''], os_error = None\<rparr>"

text \<open>An orchestrator with room for one session, and that session running.\<close>

definition ex_orchestrator :: orchestrator where
  "ex_orchestrator =
     \<lparr>o_maxConcurrentSessions = 1, o_autoCreatePR = True, o_learningEnabled = True,
      o_activeSessions = [(''o-1'', ex_orch_session)], o_engines = [(''o-1'', ex_engine)],
      o_results = []\<rparr>"

definition ex_environment :: environment where
  "ex_environment =
     \<lparr>ev_uuid = ''o-2'', ev_now = 0, ev_tracker = ex_tracker, ev_patterns = [],
      ev_engine = Inl (Error ''not reached''), ev_extname = (\<lambda>f. ''.js''), ev_fs_ok = True\<rparr>"

text \<open>
  An idle orchestrator with room for one session, and two submissions made back to
  back: the second is made while the first awaits its issue.
\<close>

definition ex_idle :: orchestrator where
  "ex_idle =
     \<lparr>o_maxConcurrentSessions = 1, o_autoCreatePR = True, o_learningEnabled = True,
      o_activeSessions = [], o_engines = [], o_results = []\<rparr>"

definition ex_first :: environment where
  "ex_first = ex_environment\<lparr>ev_uuid := ''o-1''\<rparr>"

definition ex_second :: environment where
  "ex_second = ex_environment\<lparr>ev_uuid := ''o-2''\<rparr>"

definition ex_race :: orchestrator where
  "ex_race =
     snd (resolveIssue_resume ex_second (Fetching ''o-2'' 8 0)
       (snd (resolveIssue_resume ex_first (Fetching ''o-1'' 7 0)
         (snd (resolveIssue ex_second 8
           (snd (resolveIssue ex_first 7 ex_idle)))))))"

section \<open>The similarity score never reaches the threshold\<close>

lemma small_add: "small a x \<Longrightarrow> small b y \<Longrightarrow> small (a + b) (js_add x y)"
  by (cases x; cases y) (auto simp: small_def)

lemma small_mono: "small a x \<Longrightarrow> a \<le> b \<Longrightarrow> small b x"
  by (cases x) (auto simp: small_def)

lemma small_Num: "0 \<le> r \<Longrightarrow> r \<le> b \<Longrightarrow> small b (Num r)"
  by (simp add: small_def)

lemma complexityMap_cases: "complexityMap k = NaN \<or> (\<exists>r. complexityMap k = Num r)"
  by (simp add: complexityMap_def)

lemma complexity_term_small:
  "small 0.2 (js_mul (js_max (Num 0) (js_sub (Num 1)
      (js_div (js_abs (js_sub (complexityMap k1) (complexityMap k2))) (Num 3)))) (Num 0.2))"
  using complexityMap_cases[of k1] complexityMap_cases[of k2]
  by (auto simp: small_def js_sub_def)

lemma overlap_term_small:
  "small 0.3 (js_mul (js_div (Num (real (length (filter P ts))))
       (Num (real (max (length ts) (length us))))) (Num 0.3))"
proof -
  have "length (filter P ts) \<le> max (length ts) (length us)"
    using length_filter_le[of P ts] by linarith
  then show ?thesis
    by (auto simp: small_def divide_le_eq)
qed

lemma small_div4: "small 1 x \<Longrightarrow> small 0.25 (js_div x (Num 4))"
  by (cases x) (auto simp: small_def)

lemma calculateSimilarity_small: "small 0.25 (calculateSimilarity i s)"
proof -
  define s1 where "s1 = (if i_domain i = s_domain s then js_add (Num 0) (Num 0.3)
             else if truthy_opt (i_domain i) \<and> truthy_opt (s_domain s)
               then js_add (Num 0) (Num 0.1)
             else Num 0)"
  have 1: "small 0.3 s1" by (simp add: s1_def small_def)
  define s2 where "s2 = js_add s1 (js_mul (js_max (Num 0) (js_sub (Num 1)
      (js_div (js_abs (js_sub (complexityMap (i_complexity i))
         (complexityMap (s_complexity s)))) (Num 3)))) (Num 0.2))"
  have 2: "small 0.5 s2"
    unfolding s2_def using small_add[OF 1 complexity_term_small] by simp
  define s3 where "s3 = (case (i_keyTerms i, s_keyTerms s) of
               (Some ts, Some us) \<Rightarrow>
                 (let overlap = length (filter (\<lambda>term. term \<in> set us) ts)
                  in js_add s2
                       (js_mul (js_div (Num (real overlap))
                                       (Num (real (max (length ts) (length us)))))
                               (Num 0.3)))
             | _ \<Rightarrow> s2)"
  have 3: "small 0.8 s3"
    unfolding s3_def using small_add[OF 2 overlap_term_small] small_mono[OF 2, of "0.8"]
    by (auto split: option.splits
        simp: Let_def simp del: js_div.simps js_mul.simps js_add.simps of_nat_max)
  define s4 where "s4 = (if i_category i = s_category s then js_add s3 (Num 0.2) else s3)"
  have 4: "small 1 s4"
    unfolding s4_def using small_add[OF 3 small_Num[of "0.2" "0.2"]] small_mono[OF 3, of "1"]
    by auto
  have "calculateSimilarity i s = js_div s4 (Num (real (0 + 1 + 1 + 1 + 1)))"
    by (simp only: calculateSimilarity_def Let_def s4_def s3_def s2_def s1_def)
  then show ?thesis using small_div4[OF 4] by simp
qed

lemma not_gt_small: "small 0.25 x \<Longrightarrow> \<not> js_gt x 0.7"
  by (cases x) (auto simp: small_def)

lemma collectMatches_calculateSimilarity:
  "collectMatches calculateSimilarity iss store = []"
  by (induction store) (auto simp: Let_def not_gt_small[OF calculateSimilarity_small])

text \<open>
  Claim C2. For every issue and every content of the pattern store, \<open>matchPatterns\<close>
  returns the empty list: the weighted components of \<open>calculateSimilarity\<close> add up to
  at most 1, the sum is divided by the factor count 4, and a score of at most 0.25 (or
  \<open>NaN\<close>) never passes the test \<open>similarity > 0.7\<close>.
\<close>

theorem matchPatterns_empty: "matchPatterns store iss = []"
  by (simp add: matchPatterns_def matchPatternsWith_def collectMatches_calculateSimilarity
      array_sort_def)


section \<open>Threshold and order of the matched patterns\<close>

lemma set_insert_cmp: "set (insert_cmp cmp x ys) = insert x (set ys)"
  by (induction ys) auto

lemma set_array_sort: "set (array_sort cmp xs) = set xs"
  unfolding array_sort_def by (induction xs) (simp_all add: set_insert_cmp)

lemma is_finite_iff: "is_finite x \<longleftrightarrow> (\<exists>r. x = Num r)"
  by (cases x) simp_all

lemma sorted_insert_cmp:
  assumes "is_finite (k x)" and "\<forall>y\<in>set ys. is_finite (k y)"
    and "sorted_wrt (\<lambda>a b. js_geq (k a) (k b)) ys"
  shows "sorted_wrt (\<lambda>a b. js_geq (k a) (k b)) (insert_cmp (\<lambda>a b. js_sub (k b) (k a)) x ys)"
  using assms
proof (induction ys)
  case Nil
  then show ?case by simp
next
  case (Cons y ys)
  from Cons.prems obtain rx ry where rx: "k x = Num rx" and ry: "k y = Num ry"
    by (auto simp: is_finite_iff)
  show ?case
  proof (cases "js_le0 (js_sub (k y) (k x))")
    case True
    then have le: "ry \<le> rx" by (simp add: rx ry js_sub_def)
    have "js_geq (k x) (k z)" if "z \<in> set ys" for z
    proof -
      from Cons.prems that obtain rz where rz: "k z = Num rz" by (auto simp: is_finite_iff)
      from Cons.prems that have "js_geq (k y) (k z)" by auto
      then show ?thesis using le by (simp add: rx ry rz)
    qed
    with True Cons.prems le show ?thesis by (auto simp: rx ry)
  next
    case False
    then have lt: "rx < ry" by (simp add: rx ry js_sub_def)
    have "sorted_wrt (\<lambda>a b. js_geq (k a) (k b)) (insert_cmp (\<lambda>a b. js_sub (k b) (k a)) x ys)"
      using Cons by auto
    with False Cons.prems lt show ?thesis
      by (auto simp: set_insert_cmp rx ry)
  qed
qed

lemma sorted_array_sort:
  assumes "\<forall>y\<in>set xs. is_finite (k y)"
  shows "sorted_wrt (\<lambda>a b. js_geq (k a) (k b)) (array_sort (\<lambda>a b. js_sub (k b) (k a)) xs)"
  using assms
proof (induction xs)
  case Nil
  then show ?case by (simp add: array_sort_def)
next
  case (Cons x xs)
  have "sorted_wrt (\<lambda>a b. js_geq (k a) (k b))
          (insert_cmp (\<lambda>a b. js_sub (k b) (k a)) x (array_sort (\<lambda>a b. js_sub (k b) (k a)) xs))"
    using Cons by (intro sorted_insert_cmp) (auto simp: set_array_sort)
  then show ?case by (simp add: array_sort_def)
qed

lemma collectMatches_sound:
  "m \<in> set (collectMatches sim iss store) \<Longrightarrow>
     js_gt (m_similarity m) 0.7 \<and>
     m_similarity m = sim iss (p_signature (m_pattern m)) \<and>
     m_confidence m = js_mul (m_similarity m) (Num (p_successRate (m_pattern m))) \<and>
     (m_id m, m_pattern m) \<in> set store"
  by (induction store) (auto simp: Let_def split: if_splits)


lemma collectMatches_finite:
  assumes "finite_scores sim iss store" and "m \<in> set (collectMatches sim iss store)"
  shows "is_finite (m_confidence m)"
proof -
  from collectMatches_sound[OF assms(2)]
  have gt: "js_gt (m_similarity m) 0.7"
    and sim: "m_similarity m = sim iss (p_signature (m_pattern m))"
    and conf: "m_confidence m = js_mul (m_similarity m) (Num (p_successRate (m_pattern m)))"
    and mem: "(m_id m, m_pattern m) \<in> set store"
    by blast+
  from assms(1) mem have "sim iss (p_signature (m_pattern m)) \<noteq> PInf"
    by (auto simp: finite_scores_def list_all_iff)
  with gt sim have "\<exists>r. m_similarity m = Num r"
    by (cases "sim iss (p_signature (m_pattern m))") simp_all
  then obtain r where "m_similarity m = Num r" ..
  with conf show ?thesis by simp
qed

lemma matchPatternsWith_above_threshold_sorted:
  assumes "finite_scores sim iss store"
  shows "above_threshold_sorted (matchPatternsWith sim store iss)"
proof -
  have "sorted_wrt (\<lambda>a b. js_geq (m_confidence a) (m_confidence b))
          (matchPatternsWith sim store iss)"
    unfolding matchPatternsWith_def
    by (rule sorted_array_sort) (simp add: collectMatches_finite[OF assms])
  moreover have "js_gt (m_similarity m) 0.7 \<and>
      m_confidence m = js_mul (m_similarity m) (Num (p_successRate (m_pattern m)))"
    if "m \<in> set (matchPatternsWith sim store iss)" for m
  proof -
    from that have "m \<in> set (collectMatches sim iss store)"
      by (simp add: matchPatternsWith_def set_array_sort)
    from collectMatches_sound[OF this] show ?thesis by blast
  qed
  ultimately show ?thesis by (simp add: above_threshold_sorted_def)
qed

lemma calculateSimilarity_finite_scores: "finite_scores calculateSimilarity iss store"
proof -
  have "calculateSimilarity iss sg \<noteq> PInf" for sg
    using calculateSimilarity_small[of iss sg] by (auto simp: small_def)
  then show ?thesis by (simp add: finite_scores_def list_all_iff split: prod.splits)
qed

text \<open>
  Claim C4. Every pattern in \<open>Analysis.patterns\<close>, the list that \<open>matchPatterns\<close>
  returns, has a similarity strictly greater than 0.7, and the list is sorted in
  descending order of similarity multiplied by the success rate of the pattern. The
  property holds for the scorer of the class, and for every scorer that does not return
  \<open>Infinity\<close> on the store, so that it also speaks about lists that are not empty.
\<close>

theorem matchPatterns_above_threshold_sorted:
  "above_threshold_sorted (matchPatterns store iss) \<and>
   (finite_scores sim iss store \<longrightarrow> above_threshold_sorted (matchPatternsWith sim store iss))"
  using matchPatternsWith_above_threshold_sorted[OF calculateSimilarity_finite_scores]
    matchPatternsWith_above_threshold_sorted[of sim iss store]
  by (simp add: matchPatterns_def)

lemma ex_store_matches:
  "matchPatternsWith ex_scorer ex_store ex_issue =
     [match_entry ex_scorer ex_issue ''p90'' (ex_pattern ''a'' 1),
      match_entry ex_scorer ex_issue ''p75'' (ex_pattern ''b'' 1)]"
  by (simp add: matchPatternsWith_def array_sort_def Let_def ex_scorer_def ex_pattern_def
      match_entry_def js_sub_def ex_store_def)

theorem matchPatterns_above_threshold_sorted_witness:
  "finite_scores ex_scorer ex_issue ex_store \<and>
   matchPatternsWith ex_scorer ex_store ex_issue \<noteq> [] \<and>
   above_threshold_sorted (matchPatternsWith ex_scorer ex_store ex_issue)"
proof -
  have fin: "finite_scores ex_scorer ex_issue ex_store"
    by (simp add: finite_scores_def ex_store_def ex_scorer_def)
  have ne: "matchPatternsWith ex_scorer ex_store ex_issue \<noteq> []"
    by (simp add: ex_store_matches)
  from fin ne matchPatterns_above_threshold_sorted[of ex_store ex_issue ex_scorer]
  show ?thesis by simp
qed







section \<open>The analysis stage\<close>

lemma extractCodeSnippets_Inr: "\<exists>xs. extractCodeSnippets rt t = Inr xs"
  by (cases t) (simp_all add: extractCodeSnippets_def bindE_def Let_def)

lemma extractStackTraces_Inr: "\<exists>xs. extractStackTraces rt t = Inr xs"
  by (cases t) (simp_all add: extractStackTraces_def bindE_def)

lemma extractReferences_Inr: "\<exists>xs. extractReferences rt t = Inr xs"
  by (cases t) (simp_all add: extractReferences_def bindE_def Let_def)

lemma categorizeComplexity_tier:
  "categorizeComplexity x \<in> {''low'', ''medium'', ''high'', ''very-high''}"
  by (simp add: categorizeComplexity_def)

lemma assessComplexity_Inr:
  "\<exists>cx. assessComplexity m rt iss = Inr cx \<and> cx_level cx = categorizeComplexity (cx_score cx)"
proof -
  obtain a where a: "extractCodeSnippets rt (i_body iss) = Inr a"
    using extractCodeSnippets_Inr by blast
  obtain b where b: "extractStackTraces rt (i_body iss) = Inr b"
    using extractStackTraces_Inr by blast
  obtain c where c: "extractReferences rt (i_body iss) = Inr c"
    using extractReferences_Inr by blast
  show ?thesis
    by (simp add: assessComplexity_def a b c bindE_def Let_def)
qed

lemma assessPriority_bounds: "0 \<le> assessPriority rt iss \<and> assessPriority rt iss \<le> 1"
proof -
  define lowered where "lowered = toLowerCase rt (issue_text iss)"
  define p1 :: real where
    "p1 = (if str_includes lowered ''critical'' \<or> str_includes lowered ''urgent''
                \<or> str_includes lowered ''production''
             then 0.5 + 0.3 else 0.5)"
  define p2 where
    "p2 = (if str_includes lowered ''security'' \<or> str_includes lowered ''vulnerability''
             then p1 + 0.2 else p1)"
  define p3 where
    "p3 = (if str_includes lowered ''user''
                \<and> (str_includes lowered ''error'' \<or> str_includes lowered ''bug'')
             then p2 + 0.2 else p2)"
  define p4 where
    "p4 = (case i_labels iss of
               Some ls \<Rightarrow>
                 (if list_ex (\<lambda>l. list_ex (\<lambda>hp. label_includes rt l hp)
                        [''high'', ''critical'', ''urgent'', ''p1'', ''priority-high'']) ls
                  then p3 + 0.3 else p3)
             | None \<Rightarrow> p3)"
  have 1: "1 / 2 \<le> p1" unfolding p1_def by simp
  have 2: "1 / 2 \<le> p2" unfolding p2_def using 1 by simp
  have 3: "1 / 2 \<le> p3" unfolding p3_def using 2 by simp
  have 4: "1 / 2 \<le> p4" unfolding p4_def using 3 by (simp split: option.splits)
  have "assessPriority rt iss = min p4 1.0"
    by (simp only: assessPriority_def Let_def p4_def p3_def p2_def p1_def lowered_def)
  with 4 show ?thesis by simp
qed

lemma assessRisks_Inr: "\<exists>rs. assessRisks rt iss = Inr rs"
proof -
  obtain a where a: "extractCodeSnippets rt (i_body iss) = Inr a"
    using extractCodeSnippets_Inr by blast
  show ?thesis
    by (simp add: assessRisks_def a bindE_def Let_def)
qed

lemma bindE_Inr: "m = Inr x \<Longrightarrow> \<exists>y. bindE m (\<lambda>b. Inr (g b)) = Inr y"
  by (simp add: bindE_def)

lemma reduce1_Inr: "xs \<noteq> [] \<Longrightarrow> \<exists>y. reduce1 f xs = Inr y"
  by (cases xs) (simp_all add: reduce1_def)

lemma classify_Inr: "\<exists>cls. classify rnd sem = Inr cls"
proof -
  let ?cats = "[''bug'', ''feature'', ''enhancement'', ''documentation'',
                ''performance'', ''security'']"
  let ?scores = "map (\<lambda>(k, category).
                          \<lparr>cs_category = category,
                           cs_score = rnd k * 0.4 + 0.6,
                           cs_features = extractFeatures sem category\<rparr>)
                     (zip [0..<length ?cats] ?cats)"
  have ne: "?scores \<noteq> []" by simp
  from reduce1_Inr[OF ne, of "\<lambda>a b. if cs_score a > cs_score b then a else b"]
  show ?thesis
    unfolding classify_def Let_def by (elim exE) (rule bindE_Inr)
qed

lemma performDeepAnalysis_Inr:
  assumes "assessComplexity (e_maxAgents eng) rt (ss_issue sess) = Inr cx"
      and "assessRisks rt (ss_issue sess) = Inr risks"
      and "classify rnd (analyzeSemantics rt (ss_issue sess)) = Inr cls"
  shows "performDeepAnalysis eng rt now rnd sess =
           Inr (analysis_of eng rt sess cx risks now cls,
                sess\<lparr>ss_analysis := Some (analysis_of eng rt sess cx risks now cls),
                     ss_patternsRecognized :=
                       length (matchPatterns (e_patterns eng) (ss_issue sess))\<rparr>)"
  using assms
  by (simp add: performDeepAnalysis_def Let_def bindE_def analysis_of_def)

text \<open>
  Claim C10. For every task, also one with empty text, a missing or \<open>null\<close> title or
  body, missing labels or labels without a name, the analysis stage returns (it does
  not throw), the complexity tier is one of \<open>low\<close>, \<open>medium\<close>, \<open>high\<close>, \<open>very-high\<close>, and
  the priority lies in \<open>[0, 1]\<close>.
\<close>

theorem performDeepAnalysis_total:
  "\<exists>an sess'. performDeepAnalysis eng rt now rnd sess = Inr (an, sess') \<and>
     cx_level (a_complexity an) \<in> {''low'', ''medium'', ''high'', ''very-high''} \<and>
     0 \<le> a_priority an \<and> a_priority an \<le> 1"
proof -
  obtain cx where cx: "assessComplexity (e_maxAgents eng) rt (ss_issue sess) = Inr cx"
    and lvl: "cx_level cx = categorizeComplexity (cx_score cx)"
    using assessComplexity_Inr by blast
  obtain risks where risks: "assessRisks rt (ss_issue sess) = Inr risks"
    using assessRisks_Inr by blast
  obtain cls where cls: "classify rnd (analyzeSemantics rt (ss_issue sess)) = Inr cls"
    using classify_Inr by blast
  let ?an = "analysis_of eng rt sess cx risks now cls"
  have "cx_level (a_complexity ?an) \<in> {''low'', ''medium'', ''high'', ''very-high''}"
    using categorizeComplexity_tier[of "cx_score cx"] by (simp add: analysis_of_def lvl)
  moreover have "0 \<le> a_priority ?an \<and> a_priority ?an \<le> 1"
    using assessPriority_bounds[of rt "ss_issue sess"] by (simp add: analysis_of_def)
  ultimately show ?thesis
    using performDeepAnalysis_Inr[OF cx risks cls, of now] by blast
qed

lemma scores_expand:
  "map (\<lambda>(k, category). g k category)
     (zip [0..<length [c0, c1, c2, c3, c4, c5]] [c0, c1, c2, c3, c4, c5])
   = [g 0 c0, g 1 c1, g 2 c2, g 3 c3, g 4 c4, g 5 c5]"
  by (simp add: upt_rec eval_nat_numeral)

lemma classify_category:
  "classify rnd sem = Inr cls \<Longrightarrow>
     cl_category cls =
       cs_category (foldl (\<lambda>a b. if cs_score a > cs_score b then a else b)
          \<lparr>cs_category = ''bug'', cs_score = rnd 0 * 0.4 + 0.6,
           cs_features = extractFeatures sem ''bug''\<rparr>
          [\<lparr>cs_category = ''feature'', cs_score = rnd 1 * 0.4 + 0.6,
            cs_features = extractFeatures sem ''feature''\<rparr>,
           \<lparr>cs_category = ''enhancement'', cs_score = rnd 2 * 0.4 + 0.6,
            cs_features = extractFeatures sem ''enhancement''\<rparr>,
           \<lparr>cs_category = ''documentation'', cs_score = rnd 3 * 0.4 + 0.6,
            cs_features = extractFeatures sem ''documentation''\<rparr>,
           \<lparr>cs_category = ''performance'', cs_score = rnd 4 * 0.4 + 0.6,
            cs_features = extractFeatures sem ''performance''\<rparr>,
           \<lparr>cs_category = ''security'', cs_score = rnd 5 * 0.4 + 0.6,
            cs_features = extractFeatures sem ''security''\<rparr>])"
  unfolding classify_def Let_def scores_expand
  by (auto simp: reduce1_def bindE_def)

lemma reported_category_eq:
  "\<exists>cls. classify rnd (analyzeSemantics rt (ss_issue sess)) = Inr cls \<and>
     reported_category (performDeepAnalysis eng rt now rnd sess) = Some (cl_category cls)"
proof -
  obtain cx where cx: "assessComplexity (e_maxAgents eng) rt (ss_issue sess) = Inr cx"
    using assessComplexity_Inr by blast
  obtain risks where risks: "assessRisks rt (ss_issue sess) = Inr risks"
    using assessRisks_Inr by blast
  obtain cls where cls: "classify rnd (analyzeSemantics rt (ss_issue sess)) = Inr cls"
    using classify_Inr by blast
  show ?thesis
    using cls performDeepAnalysis_Inr[OF cx risks cls, of now]
    by (simp add: reported_category_def analysis_of_def)
qed

text \<open>
  Claim C3, as stated, fails: the analysis of the same task with the same store
  reports the category \<open>security\<close> when all six draws of \<open>Math.random()\<close> are 0, and the
  category \<open>bug\<close> when the first draw is 0.5.
\<close>

theorem analysis_classification_counterexample:
  "reported_category (performDeepAnalysis ex_engine ex_runtime 0 rnd_zero ex_session)
     = Some ''security'' \<and>
   reported_category (performDeepAnalysis ex_engine ex_runtime 0 rnd_first ex_session)
     = Some ''bug''"
proof -
  obtain c0 where c0: "classify rnd_zero (analyzeSemantics ex_runtime (ss_issue ex_session)) = Inr c0"
    and r0: "reported_category (performDeepAnalysis ex_engine ex_runtime 0 rnd_zero ex_session)
               = Some (cl_category c0)"
    using reported_category_eq by blast
  obtain c1 where c1: "classify rnd_first (analyzeSemantics ex_runtime (ss_issue ex_session)) = Inr c1"
    and r1: "reported_category (performDeepAnalysis ex_engine ex_runtime 0 rnd_first ex_session)
               = Some (cl_category c1)"
    using reported_category_eq by blast
  have "cl_category c0 = ''security''"
    using classify_category[OF c0] by (simp add: rnd_zero_def)
  moreover have "cl_category c1 = ''bug''"
    using classify_category[OF c1] by (simp add: rnd_first_def)
  ultimately show ?thesis by (simp add: r0 r1)
qed

text \<open>
  Claim C3, amended. Calling the analysis stage twice on the same task with an
  unchanged knowledge store yields two analyses that are identical in every field
  other than \<open>timestamp\<close> and \<open>neuralClassification\<close>: the semantic features, the
  complexity, the matched patterns, the domain, the priority, the solution space and
  the risks do not depend on the clock or on \<open>Math.random()\<close>.
\<close>

theorem analysis_deterministic_fields:
  "\<exists>an an' s s'.
     performDeepAnalysis eng rt now rnd sess = Inr (an, s) \<and>
     performDeepAnalysis eng rt now' rnd' sess = Inr (an', s') \<and>
     an'\<lparr>a_timestamp := a_timestamp an,
         a_neuralClassification := a_neuralClassification an\<rparr> = an"
proof -
  obtain cx where cx: "assessComplexity (e_maxAgents eng) rt (ss_issue sess) = Inr cx"
    using assessComplexity_Inr by blast
  obtain risks where risks: "assessRisks rt (ss_issue sess) = Inr risks"
    using assessRisks_Inr by blast
  obtain cls where cls: "classify rnd (analyzeSemantics rt (ss_issue sess)) = Inr cls"
    using classify_Inr by blast
  obtain cls' where cls': "classify rnd' (analyzeSemantics rt (ss_issue sess)) = Inr cls'"
    using classify_Inr by blast
  have "(analysis_of eng rt sess cx risks now' cls')
          \<lparr>a_timestamp := a_timestamp (analysis_of eng rt sess cx risks now cls),
           a_neuralClassification :=
             a_neuralClassification (analysis_of eng rt sess cx risks now cls)\<rparr>
        = analysis_of eng rt sess cx risks now cls"
    by (simp add: analysis_of_def)
  then show ?thesis
    using performDeepAnalysis_Inr[OF cx risks cls, of now]
      performDeepAnalysis_Inr[OF cx risks cls', of now']
    by blast
qed


section \<open>Convergence of the discussion rounds\<close>

lemma foldl_convergence_step:
  "foldl convergence_step (c, t) xs =
     (c + sum_list (map in_confidence (filter in_consensus xs)), t + length xs)"
  by (induction xs arbitrary: c t) (simp_all add: convergence_step_def)

lemma foldl_discussions:
  "foldl (\<lambda>acc d. foldl convergence_step acc (d_insights d)) (c, t) ds =
     (c + sum_list (map in_confidence (filter in_consensus (all_insights ds))),
      t + length (all_insights ds))"
  by (induction ds arbitrary: c t) (simp_all add: all_insights_def foldl_convergence_step)

text \<open>
  Claim C6, as stated, fails: for one round with an insight that reached consensus
  with confidence 0.9 and an insight without consensus, the claim gives 0.9 (the mean
  over the one insight with consensus above 0.7), and \<open>measureConvergence\<close> returns
  0.45.
\<close>

theorem measureConvergence_counterexample:
  "measureConvergence ex_discussions = 0.45 \<and> convergence_as_specified ex_discussions = 0.9"
  by (simp add: measureConvergence_def convergence_step_def convergence_as_specified_def
      all_insights_def ex_discussions_def)

text \<open>
  Claim C6, amended. For every list of discussion rounds, the convergence score is the
  sum of the confidences of the insights whose consensus flag is set, divided by the
  number of all insights of all rounds, and it is 0.5 when the rounds have no insight
  at all.
\<close>

theorem measureConvergence_mean:
  "measureConvergence ds =
     (if all_insights ds = [] then 0.5
      else sum_list (map in_confidence (filter in_consensus (all_insights ds)))
           / real (length (all_insights ds)))"
  by (simp add: measureConvergence_def foldl_discussions)


section \<open>Recommendations of the quality assessment\<close>

text \<open>
  Claim C7, as stated, fails: when the draw for maintainability is 0 the dimension
  scores 0.75, below the threshold 0.8, and the assessment of a solution with code,
  tests and documentation emits no recommendation.
\<close>

theorem generateRecommendations_counterexample:
  "mt_maintainability (as_metrics (assess rnd_zero 0 ex_solution)) < 0.8 \<and>
   as_recommendations (assess rnd_zero 0 ex_solution) = []"
  by (simp add: assess_def Let_def rnd_zero_def ex_solution_def assessMaintainability_def
      generateRecommendations_def assessCompleteness_def assessTestability_def
      assessDocumentation_def)

text \<open>
  Claim C7, amended. For every candidate solution assessed, the assessment emits one
  improvement recommendation for each of the three dimensions completeness,
  testability and documentation quality whose score falls below the fixed threshold
  0.8, and no other recommendation: the scores for correctness, maintainability,
  performance and security have no influence on the recommendations.
\<close>

theorem generateRecommendations_three:
  "length (generateRecommendations m) =
     length (filter (\<lambda>v. v < 0.8) [mt_completeness m, mt_testability m, mt_documentation m])
   \<and> (''Add missing implementation components'' \<in> set (generateRecommendations m)
        \<longleftrightarrow> mt_completeness m < 0.8)
   \<and> (''Improve test coverage and quality'' \<in> set (generateRecommendations m)
        \<longleftrightarrow> mt_testability m < 0.8)
   \<and> (''Enhance documentation and examples'' \<in> set (generateRecommendations m)
        \<longleftrightarrow> mt_documentation m < 0.8)
   \<and> generateRecommendations
        (m\<lparr>mt_correctness := a, mt_maintainability := b, mt_performance := c,
           mt_security := d\<rparr>)
      = generateRecommendations m
   \<and> as_recommendations (assess rnd now sol)
      = generateRecommendations (as_metrics (assess rnd now sol))"
  by (simp add: generateRecommendations_def Let_def assess_def)


section \<open>Worker count of the planner\<close>

text \<open>
  Claim C9. For every complexity tier the planner returns a worker count within
  \<open>[2, maxWorkers]\<close> (an interval that has an element when \<open>maxWorkers\<close> is at least 2),
  and when \<open>maxWorkers\<close> is at least 8 the count is the one of the tier table: 2 for
  \<open>low\<close>, 4 for \<open>medium\<close>, 6 for \<open>high\<close>, 8 for \<open>very-high\<close>.
\<close>

theorem generateStrategy_worker_count:
  assumes "ctx_complexity ctx \<in> {''low'', ''medium'', ''high'', ''very-high''}"
      and "2 \<le> ctx_maxAgents ctx"
  shows "2 \<le> int (length (sg_agents (generateStrategy ctx))) \<and>
         int (length (sg_agents (generateStrategy ctx))) \<le> ctx_maxAgents ctx \<and>
         (8 \<le> ctx_maxAgents ctx \<longrightarrow>
            length (sg_agents (generateStrategy ctx)) =
              (if ctx_complexity ctx = ''low'' then 2
               else if ctx_complexity ctx = ''medium'' then 4
               else if ctx_complexity ctx = ''high'' then 6
               else 8))"
  using assms
  by (auto simp: generateStrategy_def Let_def js_ceil_def complexityToAgentCount_def)

theorem generateStrategy_worker_count_witness:
  "ctx_complexity ex_context \<in> {''low'', ''medium'', ''high'', ''very-high''} \<and>
   2 \<le> ctx_maxAgents ex_context \<and> 8 \<le> ctx_maxAgents ex_context \<and>
   length (sg_agents (generateStrategy ex_context)) = 6"
proof -
  have 1: "ctx_complexity ex_context \<in> {''low'', ''medium'', ''high'', ''very-high''}"
    by (simp add: ex_context_def)
  have 2: "2 \<le> ctx_maxAgents ex_context"
    by (simp add: ex_context_def)
  have 3: "8 \<le> ctx_maxAgents ex_context"
    by (simp add: ex_context_def)
  from generateStrategy_worker_count[OF 1 2] 3
  have "length (sg_agents (generateStrategy ex_context)) = 6"
    by (simp add: ex_context_def)
  with 1 2 3 show ?thesis by simp
qed


section \<open>The orchestrator: capacity and the pull-request gate\<close>

lemma resolve_catch_result:
  "fst (resolve_catch env oid err orch) = Rejected err \<and>
   set (o_activeSessions (snd (resolve_catch env oid err orch))) \<subseteq> set (o_activeSessions orch) \<and>
   (oid \<notin> fst ` set (o_activeSessions orch) \<longrightarrow> snd (resolve_catch env oid err orch) = orch)"
proof (cases "map_of (o_activeSessions orch) oid")
  case None
  then show ?thesis by (simp add: resolve_catch_def)
next
  case (Some sess)
  then have "oid \<in> fst ` set (o_activeSessions orch)"
    using map_of_SomeD[OF Some] by force
  moreover have "set (AList.delete oid (o_activeSessions orch)) \<subseteq> set (o_activeSessions orch)"
    by (auto simp: AList.delete_eq)
  ultimately show ?thesis
    using Some by (simp add: resolve_catch_def Let_def persistResults_def)
qed

lemma resolveIssue_full_map:
  assumes "o_maxConcurrentSessions orch \<le> int (length (o_activeSessions orch))"
  shows "fst (resolveIssue env issueNumber orch) =
           Rejected (Error ''Maximum concurrent sessions reached. Please wait for completion.'') \<and>
         set (o_activeSessions (snd (resolveIssue env issueNumber orch)))
           \<subseteq> set (o_activeSessions orch) \<and>
         (ev_uuid env \<notin> fst ` set (o_activeSessions orch) \<longrightarrow>
            snd (resolveIssue env issueNumber orch) = orch)"
proof -
  have "resolveIssue env issueNumber orch =
          resolve_catch env (ev_uuid env)
            (Error ''Maximum concurrent sessions reached. Please wait for completion.'') orch"
    using assms by (simp add: resolveIssue_def Let_def)
  then show ?thesis
    using resolve_catch_result[of env "ev_uuid env" _ orch] by simp
qed

text \<open>
  Claim C8 is not met by the code. The capacity check reads the size of the map, and a
  call enters the map only after its issue has been fetched. With room for one session,
  a second submission made while the first awaits its issue is not rejected: it is
  suspended like the first, and when both issues have arrived two sessions are active.
\<close>

theorem resolveIssue_admits_over_capacity:
  "resolveIssue ex_first 7 ex_idle = (Suspended (Fetching ''o-1'' 7 0), ex_idle) \<and>
   resolveIssue ex_second 8 ex_idle = (Suspended (Fetching ''o-2'' 8 0), ex_idle) \<and>
   map fst (o_activeSessions ex_race) = [''o-1'', ''o-2''] \<and>
   map (\<lambda>kv. os_status (snd kv)) (o_activeSessions ex_race) = [''executing'', ''executing''] \<and>
   o_maxConcurrentSessions ex_race = 1"
proof -
  have 1: "resolveIssue ex_first 7 ex_idle = (Suspended (Fetching ''o-1'' 7 0), ex_idle)"
    by (simp add: resolveIssue_def Let_def ex_first_def ex_environment_def ex_idle_def)
  have 2: "resolveIssue ex_second 8 ex_idle = (Suspended (Fetching ''o-2'' 8 0), ex_idle)"
    by (simp add: resolveIssue_def Let_def ex_second_def ex_environment_def ex_idle_def)
  have 3: "ex_race =
     snd (resolveIssue_resume ex_second (Fetching ''o-2'' 8 0)
       (snd (resolveIssue_resume ex_first (Fetching ''o-1'' 7 0) ex_idle)))"
    by (simp add: ex_race_def 1 2)
  have 4: "map fst (o_activeSessions ex_race) = [''o-1'', ''o-2'']"
    "map (\<lambda>kv. os_status (snd kv)) (o_activeSessions ex_race) = [''executing'', ''executing'']"
    "o_maxConcurrentSessions ex_race = 1"
    by (simp_all add: 3 resolveIssue_resume_def Let_def fetchCompleteIssueData_def
        ex_first_def ex_second_def ex_environment_def ex_tracker_def ex_idle_def)
  from 1 2 4 show ?thesis by simp
qed


text \<open>
  Claim C1. \<open>shouldCreatePR\<close> returns true if and only if the quality score is above
  0.8, the completeness is above 0.9 and there is at least one artifact file.
  \<open>publishToGitHub\<close> stores a pull request only when pull-request creation is enabled
  and \<open>shouldCreatePR\<close> returns true; and when both hold and the requests to the issue
  tracker succeed, it opens the pull request.
\<close>

theorem shouldCreatePR_gate:
  "(shouldCreatePR r \<longleftrightarrow>
      q_score (pr_quality r) > 0.8 \<and> q_completeness (pr_quality r) > 0.9
      \<and> length (ar_files (pr_artifacts r)) > 0)
   \<and> (gr_pullRequest (publishToGitHub orch tr now sess r) \<noteq> None
        \<longrightarrow> o_autoCreatePR orch \<and> shouldCreatePR r)
   \<and> (o_autoCreatePR orch \<and> shouldCreatePR r
        \<and> tr_createComment tr = Inr c \<and> tr_pullRequest tr = Inr pd
        \<longrightarrow> gr_pullRequest (publishToGitHub orch tr now sess r) =
              Some (PullRequest (pd_number pd) (pd_html_url pd) (os_issueNumber sess)
                      (js_string (i_title (os_issueData sess)))))"
  by (auto simp: shouldCreatePR_def publishToGitHub_def createAnalysisComment_def
      createPullRequest_def bindE_def Let_def split: sum.splits if_splits)

theorem shouldCreatePR_gate_witness:
  "gr_pullRequest (publishToGitHub ex_orchestrator ex_tracker 0 ex_orch_session ex_processed)
     = Some (PullRequest 8 ''https://example.org/pull/8'' 7 ''Login fails with 500'') \<and>
   o_autoCreatePR ex_orchestrator \<and> shouldCreatePR ex_processed \<and>
   q_score (pr_quality ex_processed) > 0.8 \<and> q_completeness (pr_quality ex_processed) > 0.9 \<and>
   length (ar_files (pr_artifacts ex_processed)) > 0"
proof -
  have a: "o_autoCreatePR ex_orchestrator"
    by (simp add: ex_orchestrator_def)
  have q: "q_score (pr_quality ex_processed) > 0.8 \<and> q_completeness (pr_quality ex_processed) > 0.9
           \<and> length (ar_files (pr_artifacts ex_processed)) > 0"
    by (simp add: ex_processed_def)
  have c: "tr_createComment ex_tracker = Inr \<lparr>cm_id = 1, cm_url = ''https://example.org/c/1''\<rparr>"
    and p: "tr_pullRequest ex_tracker = Inr \<lparr>pd_number = 8, pd_html_url = ''https://example.org/pull/8''\<rparr>"
    by (simp_all add: ex_tracker_def)
  have s: "os_issueNumber ex_orch_session = 7"
    "js_string (i_title (os_issueData ex_orch_session)) = ''Login fails with 500''"
    by (simp_all add: ex_orch_session_def ex_issue_def)
  from shouldCreatePR_gate[of ex_processed ex_orchestrator ex_tracker 0 ex_orch_session
      "\<lparr>cm_id = 1, cm_url = ''https://example.org/c/1''\<rparr>"
      "\<lparr>pd_number = 8, pd_html_url = ''https://example.org/pull/8''\<rparr>"] a q c p s
  show ?thesis by simp
qed


end
